theory Spec2Isabelle
  imports Complex_Main "HOL-Library.Multiset"
begin

section \<open>Values, errors and property access\<close>

text \<open>
  The query engine of \<^verbatim>\<open>src/exercises/exercise-14/database.ts\<close> works on the values
  that \<^verbatim>\<open>JSON.parse\<close> returns and on the objects that \<^verbatim>\<open>projection\<close> builds
  from them. A value is \<^verbatim>\<open>undefined\<close>, \<^verbatim>\<open>null\<close>, a boolean, a number, a
  string, an array, or an object; the read of a member that a value inherits
  can also give a built-in function or a built-in prototype object of the
  language, which is known by its name (\<^verbatim>\<open>Object.prototype.toString\<close>,
  \<^verbatim>\<open>Object.prototype\<close>). An object is the list of its own enumerable properties in
  the order in which \<^verbatim>\<open>Object.keys\<close> reports them.

  Scope of the embedding:
  \<^item> a number is the rational it denotes (the infinities and not-a-number are not
    values of a record; a coercion that yields not-a-number is \<open>None\<close>);
  \<^item> a string is a list of 8-bit characters;
  \<^item> the prototype of an object is not part of its value: a value that
    \<^verbatim>\<open>JSON.parse\<close> returns has the prototype of its kind, and so has the object
    \<^verbatim>\<open>{}\<close> that \<^verbatim>\<open>projection\<close> starts from. The assignment
    \<^verbatim>\<open>obj['__proto__'] = x\<close> changes the prototype of that object and none of its
    own properties; what the prototype becomes is not recorded. A second
    projection of the object reads, apart from \<^verbatim>\<open>__proto__\<close> itself, own
    properties only. A later assignment to the object depends on its prototype
    in one case, which is left out: a record that is a string gives
    \<^verbatim>\<open>String.prototype\<close>, whose \<^verbatim>\<open>length\<close> is read-only, so that
    \<^verbatim>\<open>obj['length'] = ...\<close> is rejected; no prototype that a record that is an
    object can give has a read-only property;
  \<^item> of the members that a value inherits, those of \<^verbatim>\<open>Object.prototype\<close> are
    modelled, with the prototypes of strings, arrays, numbers, booleans and
    functions redefining some of them; the further methods of these prototypes
    (\<^verbatim>\<open>charAt\<close>, \<^verbatim>\<open>map\<close>, \<^verbatim>\<open>toFixed\<close>, ...) and the own properties of the
    built-in functions are not: a record is an object.
\<close>

datatype jsval =
    JUndefined
  | JNull
  | JBool bool
  | JNum rat
  | JStr string
  | JArr "jsval list"
  | JObj "(string \<times> jsval) list"
  | JFunction string
  | JPrototype string

text \<open>
  Every exception of the program is a value: the read of the backing file fails
  (\<open>ReadError\<close>), \<^verbatim>\<open>JSON.parse\<close> rejects a payload (\<open>JSONSyntaxError\<close>),
  \<^verbatim>\<open>new RegExp\<close> rejects a pattern (\<open>RegExpSyntaxError\<close>), or the language
  throws a \<^verbatim>\<open>TypeError\<close>: a property of \<^verbatim>\<open>null\<close> or \<^verbatim>\<open>undefined\<close> is read,
  the right operand of \<^verbatim>\<open>in\<close> is \<^verbatim>\<open>undefined\<close>, or \<^verbatim>\<open>Number\<close> finds no
  primitive value for an object.
\<close>

datatype error = ReadError | JSONSyntaxError | RegExpSyntaxError | TypeError

fun mapM :: "('a \<Rightarrow> error + 'b) \<Rightarrow> 'a list \<Rightarrow> error + 'b list" where
  "mapM f [] = Inr []"
| "mapM f (x # xs) =
     (case f x of
        Inl e \<Rightarrow> Inl e
      | Inr y \<Rightarrow> (case mapM f xs of Inl e \<Rightarrow> Inl e | Inr ys \<Rightarrow> Inr (y # ys)))"

fun filterM :: "('a \<Rightarrow> error + bool) \<Rightarrow> 'a list \<Rightarrow> error + 'a list" where
  "filterM p [] = Inr []"
| "filterM p (x # xs) =
     (case p x of
        Inl e \<Rightarrow> Inl e
      | Inr b \<Rightarrow>
          (case filterM p xs of
             Inl e \<Rightarrow> Inl e
           | Inr ys \<Rightarrow> Inr (if b then x # ys else ys)))"

text \<open>
  An array index is a canonical decimal numeral below \<open>2^32 - 1 = 4294967295\<close>: \<^verbatim>\<open>"0"\<close>, or
  digits that do not start with \<^verbatim>\<open>0\<close>.
\<close>

definition is_digit :: "char \<Rightarrow> bool" where
  "is_digit c = (c \<in> set ''0123456789'')"

definition digit_val :: "char \<Rightarrow> nat" where
  "digit_val c = length (takeWhile (\<lambda>d. d \<noteq> c) ''0123456789'')"

definition array_index :: "string \<Rightarrow> nat option" where
  "array_index s =
     (if s = [] \<or> \<not> list_all is_digit s then None
      else if hd s = CHR ''0'' \<and> 1 < length s then None
      else let n = foldl (\<lambda>a c. 10 * a + digit_val c) 0 s
           in if n < 4294967295 then Some n else None)"

text \<open>
  The own properties of a value: a string and an array have \<^verbatim>\<open>length\<close> and their
  indices, an object has its properties; a boolean and a number have none.
\<close>

fun own_prop :: "jsval \<Rightarrow> string \<Rightarrow> jsval option" where
  "own_prop (JStr s) key =
     (if key = ''length'' then Some (JNum (of_nat (length s)))
      else case array_index key of
             None \<Rightarrow> None
           | Some i \<Rightarrow> (if i < length s then Some (JStr [s ! i]) else None))"
| "own_prop (JArr xs) key =
     (if key = ''length'' then Some (JNum (of_nat (length xs)))
      else case array_index key of
             None \<Rightarrow> None
           | Some i \<Rightarrow> (if i < length xs then Some (xs ! i) else None))"
| "own_prop (JObj ps) key = map_of ps key"
| "own_prop v key = None"

text \<open>
  The members that every value other than \<^verbatim>\<open>null\<close> and \<^verbatim>\<open>undefined\<close> inherits.
  \<^verbatim>\<open>Object.prototype\<close> has eleven functions and the accessor \<^verbatim>\<open>__proto__\<close>, whose
  getter returns the prototype of the value. The prototype of a string, an
  array, a number, a boolean or a function comes before \<^verbatim>\<open>Object.prototype\<close> and
  has functions of its own under some of the eleven names. \<open>home v\<close> is the
  first built-in prototype on the way from \<open>v\<close>.
\<close>

definition Object_prototype_functions :: "string list" where
  "Object_prototype_functions =
     [''constructor'', ''__defineGetter__'', ''__defineSetter__'', ''hasOwnProperty'',
      ''__lookupGetter__'', ''__lookupSetter__'', ''isPrototypeOf'', ''propertyIsEnumerable'',
      ''toString'', ''valueOf'', ''toLocaleString'']"

fun home :: "jsval \<Rightarrow> string" where
  "home (JBool b) = ''Boolean.prototype''"
| "home (JNum n) = ''Number.prototype''"
| "home (JStr s) = ''String.prototype''"
| "home (JArr xs) = ''Array.prototype''"
| "home (JFunction f) = ''Function.prototype''"
| "home (JPrototype p) = p"
| "home v = ''Object.prototype''"

definition redefines :: "string \<Rightarrow> string list" where
  "redefines p =
     (if p = ''String.prototype'' then [''constructor'', ''toString'', ''valueOf'']
      else if p = ''Array.prototype'' then [''constructor'', ''toString'', ''toLocaleString'']
      else if p = ''Number.prototype''
      then [''constructor'', ''toString'', ''toLocaleString'', ''valueOf'']
      else if p = ''Boolean.prototype'' then [''constructor'', ''toString'', ''valueOf'']
      else if p = ''Function.prototype'' then [''constructor'', ''toString'']
      else [])"

fun prototype_of :: "jsval \<Rightarrow> jsval" where
  "prototype_of (JPrototype p) =
     (if p = ''Object.prototype'' then JNull else JPrototype ''Object.prototype'')"
| "prototype_of v = JPrototype (home v)"

definition inherited :: "jsval \<Rightarrow> string \<Rightarrow> jsval option" where
  "inherited v key =
     (if key = ''__proto__'' then Some (prototype_of v)
      else if key \<in> set Object_prototype_functions
      then Some (JFunction
             ((if key \<in> set (redefines (home v)) then home v else ''Object.prototype'')
              @ ''.'' @ key))
      else None)"

text \<open>
  \<^verbatim>\<open>data[key]\<close>. Reading a property of \<^verbatim>\<open>null\<close> or \<^verbatim>\<open>undefined\<close> throws. Any
  other value gives its own property, else the member it inherits, else
  \<^verbatim>\<open>undefined\<close>.
\<close>

definition read_prop :: "jsval \<Rightarrow> string \<Rightarrow> jsval" where
  "read_prop v key =
     (case own_prop v key of
        Some x \<Rightarrow> x
      | None \<Rightarrow> (case inherited v key of Some m \<Rightarrow> m | None \<Rightarrow> JUndefined))"

fun get_prop :: "jsval \<Rightarrow> string \<Rightarrow> error + jsval" where
  "get_prop JUndefined key = Inl TypeError"
| "get_prop JNull key = Inl TypeError"
| "get_prop data key = Inr (read_prop data key)"

text \<open>\<^verbatim>\<open>Object.keys\<close> of an object of the program (a rule set, a sort or projection rule).\<close>

definition Object_keys :: "(string \<times> 'a) list \<Rightarrow> string list" where
  "Object_keys ps = map fst ps"

text \<open>
  \<^verbatim>\<open>Object.values(val)\<close>: throws on \<^verbatim>\<open>null\<close> and \<^verbatim>\<open>undefined\<close>; a built-in
  function or prototype has no enumerable property.
\<close>

fun Object_values :: "jsval \<Rightarrow> error + jsval list" where
  "Object_values JUndefined = Inl TypeError"
| "Object_values JNull = Inl TypeError"
| "Object_values (JBool b) = Inr []"
| "Object_values (JNum n) = Inr []"
| "Object_values (JStr s) = Inr (map (\<lambda>c. JStr [c]) s)"
| "Object_values (JArr xs) = Inr xs"
| "Object_values (JObj ps) = Inr (map snd ps)"
| "Object_values (JFunction f) = Inr []"
| "Object_values (JPrototype p) = Inr []"

section \<open>Field rules: \<^verbatim>\<open>$eq\<close>, \<^verbatim>\<open>$gt\<close>, \<^verbatim>\<open>$lt\<close>, \<^verbatim>\<open>$in\<close>\<close>

text \<open>
  \<^verbatim>\<open>QueryRule\<close>: each operator is absent (\<open>None\<close>) or present with its operand.
  The operand of \<^verbatim>\<open>$eq\<close> is any value (the type allows a string, a number or
  \<^verbatim>\<open>undefined\<close>); the operand of \<^verbatim>\<open>$gt\<close> and \<^verbatim>\<open>$lt\<close> is a number or
  \<^verbatim>\<open>undefined\<close> (\<open>None\<close>, which \<^verbatim>\<open>Number\<close> turns into not-a-number); the operand of
  \<^verbatim>\<open>$in\<close> is an array or \<^verbatim>\<open>undefined\<close> (\<open>None\<close>).
\<close>

record QueryRule =
  rule_eq :: "jsval option"
  rule_gt :: "rat option option"
  rule_lt :: "rat option option"
  rule_in :: "jsval list option option"

text \<open>
  \<^verbatim>\<open>Param<T>\<close>: a rule set, the list of its properties in the order of
  \<^verbatim>\<open>Object.keys\<close>. Every property is optional, so its value is a rule or
  \<^verbatim>\<open>undefined\<close> (\<open>None\<close>).
\<close>

type_synonym Param = "(string \<times> QueryRule option) list"

text \<open>\<^verbatim>\<open>typeof val\<close>.\<close>

fun typeof :: "jsval \<Rightarrow> string" where
  "typeof JUndefined = ''undefined''"
| "typeof JNull = ''object''"
| "typeof (JBool b) = ''boolean''"
| "typeof (JNum n) = ''number''"
| "typeof (JStr s) = ''string''"
| "typeof (JArr xs) = ''object''"
| "typeof (JObj ps) = ''object''"
| "typeof (JFunction f) = ''function''"
| "typeof (JPrototype p) = (if p = ''Function.prototype'' then ''function'' else ''object'')"

text \<open>
  \<^verbatim>\<open>val === value\<close> is used only where \<^verbatim>\<open>val\<close> is a string or a number; there
  strict equality is equality of the values.
\<close>

definition dollar_eq :: "jsval \<Rightarrow> string \<Rightarrow> jsval \<Rightarrow> error + bool" where
  "dollar_eq data key v =
     (case get_prop data key of
        Inl e \<Rightarrow> Inl e
      | Inr val \<Rightarrow>
          if typeof val = ''string'' then Inr (val = v)
          else if typeof val = ''number'' then Inr (val = v)
          else Inr False)"

text \<open>
  \<^verbatim>\<open>val > Number(value)\<close>, for a number \<^verbatim>\<open>val\<close>: a comparison with not-a-number
  is false.
\<close>

definition greater_js :: "jsval \<Rightarrow> rat option \<Rightarrow> bool" where
  "greater_js val v =
     (case (val, v) of (JNum n, Some m) \<Rightarrow> n > m | _ \<Rightarrow> False)"

definition less_js :: "jsval \<Rightarrow> rat option \<Rightarrow> bool" where
  "less_js val v =
     (case (val, v) of (JNum n, Some m) \<Rightarrow> n < m | _ \<Rightarrow> False)"

definition dollar_gt :: "jsval \<Rightarrow> string \<Rightarrow> rat option \<Rightarrow> error + bool" where
  "dollar_gt data key v =
     (case get_prop data key of
        Inl e \<Rightarrow> Inl e
      | Inr val \<Rightarrow>
          if typeof val = ''number'' then Inr (greater_js val v)
          else Inr False)"

definition dollar_lt :: "jsval \<Rightarrow> string \<Rightarrow> rat option \<Rightarrow> error + bool" where
  "dollar_lt data key v =
     (case get_prop data key of
        Inl e \<Rightarrow> Inl e
      | Inr val \<Rightarrow>
          if typeof val = ''number'' then Inr (less_js val v)
          else Inr False)"

text \<open>\<^verbatim>\<open>value.indexOf(val) > -1\<close>: \<^verbatim>\<open>indexOf\<close> compares with strict equality.\<close>

definition dollar_in :: "jsval \<Rightarrow> string \<Rightarrow> jsval list \<Rightarrow> error + bool" where
  "dollar_in data key vs =
     (case get_prop data key of
        Inl e \<Rightarrow> Inl e
      | Inr val \<Rightarrow>
          if typeof val = ''number'' then Inr (val \<in> set vs)
          else if typeof val = ''string'' then Inr (val \<in> set vs)
          else Inr False)"

text \<open>
  \<^verbatim>\<open>ruleHeadless\<close>: the operators that are present are checked in the fixed order
  \<^verbatim>\<open>$eq\<close>, \<^verbatim>\<open>$gt\<close>, \<^verbatim>\<open>$lt\<close>, \<^verbatim>\<open>$in\<close>; the first that fails returns false.
  \<open>check\<close> is one \<^verbatim>\<open>if ('$op' in ruleOpt) { ... }\<close> block followed by the rest.
\<close>

definition check :: "(error + bool) option \<Rightarrow> (error + bool) \<Rightarrow> error + bool" where
  "check r rest =
     (case r of
        None \<Rightarrow> rest
      | Some (Inl e) \<Rightarrow> Inl e
      | Some (Inr result) \<Rightarrow> (if \<not> result then Inr False else rest))"

definition ruleHeadless :: "jsval \<Rightarrow> string \<Rightarrow> QueryRule \<Rightarrow> error + bool" where
  "ruleHeadless data key ruleOpt =
     check (map_option (dollar_eq data key) (rule_eq ruleOpt))
    (check (map_option (dollar_gt data key) (rule_gt ruleOpt))
    (check (map_option (dollar_lt data key) (rule_lt ruleOpt))
    (check (map_option (\<lambda>v. dollar_in data key (case v of None \<Rightarrow> [] | Some vs \<Rightarrow> vs))
              (rule_in ruleOpt))
    (Inr True))))"

text \<open>
  The callers pass \<^verbatim>\<open>val[qKey] as QueryRule\<close> and \<^verbatim>\<open>query[key] as QueryRule\<close>: the
  cast checks nothing, and the value of an optional property can be
  \<^verbatim>\<open>undefined\<close>. Then the first test of \<^verbatim>\<open>ruleHeadless\<close>, \<^verbatim>\<open>'$eq' in ruleOpt\<close>,
  throws, before the record is looked at.
\<close>

definition ruleHeadless_cast :: "jsval \<Rightarrow> string \<Rightarrow> QueryRule option \<Rightarrow> error + bool" where
  "ruleHeadless_cast data key opt =
     (case opt of
        None \<Rightarrow> Inl TypeError
      | Some ruleOpt \<Rightarrow> ruleHeadless data key ruleOpt)"

section \<open>Combinators: \<^verbatim>\<open>$and\<close>, \<^verbatim>\<open>$or\<close>\<close>

text \<open>
  One rule set \<^verbatim>\<open>val\<close> of \<^verbatim>\<open>opts\<close> becomes the list of the closures
  \<^verbatim>\<open>(data) => ruleHeadless(data, qKey, val[qKey])\<close>, one per key; \<open>rule_set\<close> is
  \<^verbatim>\<open>rule.map((r) => r(val)).every((value) => value)\<close>: every closure runs, then the
  results are combined. \<open>and_pred\<close> and \<open>or_pred\<close> are the callbacks that
  \<^verbatim>\<open>$and\<close> and \<^verbatim>\<open>$or\<close> hand to \<^verbatim>\<open>arr.filter\<close>.
\<close>

definition rule_of :: "Param \<Rightarrow> string \<Rightarrow> QueryRule option" where
  "rule_of val qKey = (case map_of val qKey of None \<Rightarrow> None | Some r \<Rightarrow> r)"

definition rule_at :: "Param \<Rightarrow> string \<Rightarrow> jsval \<Rightarrow> error + bool" where
  "rule_at val qKey data = ruleHeadless_cast data qKey (rule_of val qKey)"

definition rule_set :: "Param \<Rightarrow> jsval \<Rightarrow> error + bool" where
  "rule_set val data =
     (case mapM (\<lambda>qKey. rule_at val qKey data) (Object_keys val) of
        Inl e \<Rightarrow> Inl e
      | Inr bs \<Rightarrow> Inr (list_all (\<lambda>value. value) bs))"

definition and_pred :: "Param list \<Rightarrow> jsval \<Rightarrow> error + bool" where
  "and_pred opts val =
     (case mapM (\<lambda>rule. rule_set rule val) opts of
        Inl e \<Rightarrow> Inl e
      | Inr bs \<Rightarrow> Inr (list_all (\<lambda>value. value) bs))"

definition or_pred :: "Param list \<Rightarrow> jsval \<Rightarrow> error + bool" where
  "or_pred opts val =
     (case mapM (\<lambda>rule. rule_set rule val) opts of
        Inl e \<Rightarrow> Inl e
      | Inr bs \<Rightarrow> Inr (list_ex (\<lambda>value. value) bs))"

definition dollar_and :: "jsval list \<Rightarrow> Param list \<Rightarrow> error + jsval list" where
  "dollar_and arr opts = filterM (and_pred opts) arr"

definition dollar_or :: "jsval list \<Rightarrow> Param list \<Rightarrow> error + jsval list" where
  "dollar_or arr opts = filterM (or_pred opts) arr"

section \<open>The platform\<close>

text \<open>
  Three built-ins of the language are parameters of the embedding:
  \<^item> \<^verbatim>\<open>JSON.parse\<close>: \<open>None\<close> when it throws;
  \<^item> \<^verbatim>\<open>new RegExp(source, 'g')\<close>: \<open>None\<close> when the source is not a pattern, and
    otherwise the matcher of the pattern, which tries the pattern on a string at
    one index and returns the index where the match ends;
  \<^item> \<^verbatim>\<open>Number\<close> on a value that is not \<^verbatim>\<open>undefined\<close>, \<^verbatim>\<open>null\<close>, a boolean or a
    number: \<open>None\<close> when it throws (no conversion method of an object returns a
    primitive value, as for an object whose own \<^verbatim>\<open>toString\<close> is not a function),
    and otherwise the number, with \<open>None\<close> for not-a-number.
\<close>

type_synonym matcher = "string \<Rightarrow> nat \<Rightarrow> nat option"

record platform =
  JSON_parse :: "string \<Rightarrow> jsval option"
  new_RegExp :: "string \<Rightarrow> matcher option"
  ToNumber :: "jsval \<Rightarrow> rat option option"

text \<open>\<^verbatim>\<open>Number(x)\<close>: a \<^verbatim>\<open>TypeError\<close>, or a number, or not-a-number (\<open>None\<close>).\<close>

fun Number_js :: "platform \<Rightarrow> jsval \<Rightarrow> error + rat option" where
  "Number_js P JUndefined = Inr None"
| "Number_js P JNull = Inr (Some 0)"
| "Number_js P (JBool b) = Inr (Some (if b then 1 else 0))"
| "Number_js P (JNum n) = Inr (Some n)"
| "Number_js P x = (case ToNumber P x of None \<Rightarrow> Inl TypeError | Some n \<Rightarrow> Inr n)"

section \<open>Full-text search: \<^verbatim>\<open>$text\<close>\<close>

text \<open>
  \<^verbatim>\<open>toLocaleLowerCase\<close>, on the letters \<^verbatim>\<open>A\<close> to \<^verbatim>\<open>Z\<close>; every other character is
  kept.
\<close>

definition lower_char :: "char \<Rightarrow> char" where
  "lower_char c =
     (case map_of (zip ''ABCDEFGHIJKLMNOPQRSTUVWXYZ'' ''abcdefghijklmnopqrstuvwxyz'') c of
        None \<Rightarrow> c
      | Some d \<Rightarrow> d)"

definition toLocaleLowerCase :: "string \<Rightarrow> string" where
  "toLocaleLowerCase s = map lower_char s"

text \<open>
  The source of the pattern is the template \<^verbatim>\<open>`\\b${word}\\b`\<close>: a backslash and
  \<^verbatim>\<open>b\<close>, the word, a backslash and \<^verbatim>\<open>b\<close>. The word is
  \<^verbatim>\<open>query['$text']?.toLocaleLowerCase()\<close>; an \<^verbatim>\<open>undefined\<close> word prints as
  \<^verbatim>\<open>undefined\<close>.
\<close>

definition pattern_source :: "string option \<Rightarrow> string" where
  "pattern_source text =
     [CHR 0x5C, CHR ''b'']
     @ (case text of None \<Rightarrow> ''undefined'' | Some t \<Rightarrow> toLocaleLowerCase t)
     @ [CHR 0x5C, CHR ''b'']"

text \<open>
  \<^verbatim>\<open>re.test(s)\<close> for a pattern with the flag \<^verbatim>\<open>g\<close>, as the language defines it
  (RegExpBuiltinExec): the search starts at \<^verbatim>\<open>re.lastIndex\<close>; past the end of the
  string, or when no index from there on matches, the test fails and
  \<^verbatim>\<open>lastIndex\<close> becomes 0; a match sets \<^verbatim>\<open>lastIndex\<close> to its end. The result is
  the outcome and the new \<^verbatim>\<open>lastIndex\<close>.
\<close>

function RegExp_test :: "matcher \<Rightarrow> nat \<Rightarrow> string \<Rightarrow> bool \<times> nat" where
  "RegExp_test m lastIndex s =
     (if lastIndex > length s then (False, 0)
      else case m s lastIndex of
             Some e \<Rightarrow> (True, e)
           | None \<Rightarrow> RegExp_test m (lastIndex + 1) s)"
  by pat_completeness auto
termination
  by (relation "measure (\<lambda>(m, lastIndex, s). Suc (length s) - lastIndex)") auto

text \<open>
  The callback of \<^verbatim>\<open>Object.values(val).map\<close>, run over the values of one record:
  a value that is not a string gives false and leaves the pattern alone; a string
  is lower-cased and tested. \<^verbatim>\<open>lastIndex\<close> is carried from one test to the next.
\<close>

fun test_values :: "matcher \<Rightarrow> nat \<Rightarrow> jsval list \<Rightarrow> bool list \<times> nat" where
  "test_values m lastIndex [] = ([], lastIndex)"
| "test_values m lastIndex (JStr s # rest) =
     (let (b, i) = RegExp_test m lastIndex (toLocaleLowerCase s);
          (bs, j) = test_values m i rest
      in (b # bs, j))"
| "test_values m lastIndex (x # rest) =
     (let (bs, j) = test_values m lastIndex rest in (False # bs, j))"

text \<open>
  \<^verbatim>\<open>result.filter((val) => Object.values(val).map(...).some((value) => value))\<close>
  with the one pattern object \<^verbatim>\<open>re\<close> shared by all records.
\<close>

fun text_flags :: "matcher \<Rightarrow> nat \<Rightarrow> jsval list \<Rightarrow> error + bool list" where
  "text_flags m lastIndex [] = Inr []"
| "text_flags m lastIndex (val # rest) =
     (case Object_values val of
        Inl e \<Rightarrow> Inl e
      | Inr vs \<Rightarrow>
          (let (bs, i) = test_values m lastIndex vs
           in case text_flags m i rest of
                Inl e \<Rightarrow> Inl e
              | Inr fs \<Rightarrow> Inr (list_ex (\<lambda>value. value) bs # fs)))"

definition select :: "'a list \<Rightarrow> bool list \<Rightarrow> 'a list" where
  "select xs bs = map fst (filter snd (zip xs bs))"

definition dollar_text :: "platform \<Rightarrow> jsval list \<Rightarrow> string option \<Rightarrow> error + jsval list" where
  "dollar_text P result text =
     (case new_RegExp P (pattern_source text) of
        None \<Rightarrow> Inl RegExpSyntaxError
      | Some re \<Rightarrow>
          (case text_flags re 0 result of
             Inl e \<Rightarrow> Inl e
           | Inr fs \<Rightarrow> Inr (select result fs)))"

text \<open>
  What the pattern \<^verbatim>\<open>\bword\b\<close> means for a word without pattern syntax: at index
  \<open>i\<close> of \<open>s\<close> there is a word boundary, the characters of the word, and a word
  boundary. A word character is a letter, a digit or the underscore.
\<close>

definition is_word_char :: "char \<Rightarrow> bool" where
  "is_word_char c =
     (c \<in> set ''abcdefghijklmnopqrstuvwxyzABCDEFGHIJKLMNOPQRSTUVWXYZ0123456789_'')"

definition word_boundary :: "string \<Rightarrow> nat \<Rightarrow> bool" where
  "word_boundary s i =
     ((0 < i \<and> i \<le> length s \<and> is_word_char (s ! (i - 1)))
      \<noteq> (i < length s \<and> is_word_char (s ! i)))"

definition word_matcher :: "string \<Rightarrow> matcher" where
  "word_matcher w s i =
     (if word_boundary s i \<and> take (length w) (drop i s) = w
         \<and> word_boundary s (i + length w)
      then Some (i + length w) else None)"

text \<open>A string contains a whole-word match of \<open>w\<close>.\<close>

definition whole_word_in :: "string \<Rightarrow> string \<Rightarrow> bool" where
  "whole_word_in w s = list_ex (\<lambda>i. word_matcher w s i \<noteq> None) [0..<Suc (length s)]"

section \<open>Result shaping: \<^verbatim>\<open>sort\<close>, \<^verbatim>\<open>projection\<close>, \<^verbatim>\<open>endHeadless\<close>\<close>

text \<open>
  \<^verbatim>\<open>ParamEndRule\<close>: an object from field names to \<^verbatim>\<open>1\<close> or \<^verbatim>\<open>-1\<close>, as the list
  of its properties in the order of \<^verbatim>\<open>Object.keys\<close>.
\<close>

type_synonym ParamEndRule = "(string \<times> rat) list"

record EndRule =
  end_projection :: "ParamEndRule option"
  end_sort :: "ParamEndRule option"

text \<open>
  Arithmetic of the comparator, with \<open>None\<close> for not-a-number: a difference or a
  product with not-a-number is not-a-number.
\<close>

definition sub_js :: "rat option \<Rightarrow> rat option \<Rightarrow> rat option" where
  "sub_js a b = (case (a, b) of (Some x, Some y) \<Rightarrow> Some (x - y) | _ \<Rightarrow> None)"

definition mul_js :: "rat option \<Rightarrow> rat option \<Rightarrow> rat option" where
  "mul_js a b = (case (a, b) of (Some x, Some y) \<Rightarrow> Some (x * y) | _ \<Rightarrow> None)"

text \<open>
  The comparator that \<^verbatim>\<open>sort\<close> hands to \<^verbatim>\<open>arr.sort\<close> for the field \<^verbatim>\<open>v\<close>:
  \<^verbatim>\<open>aVal = Number(a[v])\<close>, \<^verbatim>\<open>bVal = Number(b[v])\<close>, then
  \<^verbatim>\<open>Number(opt[v]) * (aVal - bVal)\<close>. The direction \<^verbatim>\<open>opt[v]\<close> is a number, or
  \<^verbatim>\<open>undefined\<close> (\<open>None\<close>) when \<^verbatim>\<open>opt\<close> has no such key.
\<close>

definition comparefn :: "platform \<Rightarrow> ParamEndRule \<Rightarrow> string \<Rightarrow> jsval \<Rightarrow> jsval \<Rightarrow> error + rat option" where
  "comparefn P opt v a b =
     (case get_prop a v of
        Inl e \<Rightarrow> Inl e
      | Inr av \<Rightarrow>
          (case Number_js P av of
             Inl e \<Rightarrow> Inl e
           | Inr aVal \<Rightarrow>
               (case get_prop b v of
                  Inl e \<Rightarrow> Inl e
                | Inr bv \<Rightarrow>
                    (case Number_js P bv of
                       Inl e \<Rightarrow> Inl e
                     | Inr bVal \<Rightarrow> Inr (mul_js (map_of opt v) (sub_js aVal bVal))))))"

text \<open>
  \<^verbatim>\<open>Array.prototype.sort\<close> compares two elements as the language defines it: an
  \<^verbatim>\<open>undefined\<close> element goes last without a call of the comparator, and a result
  of the comparator that is not-a-number counts as 0.
\<close>

definition SortCompare :: "(jsval \<Rightarrow> jsval \<Rightarrow> error + rat option) \<Rightarrow> jsval \<Rightarrow> jsval \<Rightarrow> error + rat" where
  "SortCompare f x y =
     (if x = JUndefined \<and> y = JUndefined then Inr 0
      else if x = JUndefined then Inr 1
      else if y = JUndefined then Inr (- 1)
      else case f x y of
             Inl e \<Rightarrow> Inl e
           | Inr None \<Rightarrow> Inr 0
           | Inr (Some r) \<Rightarrow> Inr r)"

text \<open>
  \<^verbatim>\<open>Array.prototype.sort\<close> is stable. For a comparator that is a consistent
  ordering every stable sort returns the same array, the one of the insertion
  sort below; for any other comparator the language leaves the order to the
  implementation, and the insertion sort is one of the orders allowed. An
  exception of the comparator ends the sort.
\<close>

fun insort_js :: "('a \<Rightarrow> 'a \<Rightarrow> error + rat) \<Rightarrow> 'a \<Rightarrow> 'a list \<Rightarrow> error + 'a list" where
  "insort_js c x [] = Inr [x]"
| "insort_js c x (y # ys) =
     (case c x y of
        Inl e \<Rightarrow> Inl e
      | Inr r \<Rightarrow>
          if r \<le> 0 then Inr (x # y # ys)
          else (case insort_js c x ys of Inl e \<Rightarrow> Inl e | Inr zs \<Rightarrow> Inr (y # zs)))"

fun Array_sort :: "('a \<Rightarrow> 'a \<Rightarrow> error + rat) \<Rightarrow> 'a list \<Rightarrow> error + 'a list" where
  "Array_sort c [] = Inr []"
| "Array_sort c (x # xs) =
     (case Array_sort c xs of Inl e \<Rightarrow> Inl e | Inr ys \<Rightarrow> insort_js c x ys)"

text \<open>
  \<^verbatim>\<open>sort\<close>: one pass of \<^verbatim>\<open>arr.sort\<close> per key of \<^verbatim>\<open>opt\<close>. The array is sorted
  in place, so each pass works on what the pass before left in \<^verbatim>\<open>arr\<close>, and
  \<^verbatim>\<open>result\<close> is \<^verbatim>\<open>arr\<close> itself. Here the array is a value that is passed on;
  the section on the store makes the sharing explicit.
\<close>

fun sort_passes :: "platform \<Rightarrow> ParamEndRule \<Rightarrow> string list \<Rightarrow> jsval list \<Rightarrow> error + jsval list" where
  "sort_passes P opt [] arr = Inr arr"
| "sort_passes P opt (v # keys) arr =
     (case Array_sort (SortCompare (comparefn P opt v)) arr of
        Inl e \<Rightarrow> Inl e
      | Inr arr' \<Rightarrow> sort_passes P opt keys arr')"

definition sort_js :: "platform \<Rightarrow> jsval list \<Rightarrow> ParamEndRule \<Rightarrow> error + jsval list" where
  "sort_js P arr opt = sort_passes P opt (Object_keys opt) arr"

text \<open>
  \<^verbatim>\<open>obj[key] = value\<close> on an object that \<^verbatim>\<open>projection\<close> builds: an own property
  keeps its place and takes the value. Without an own property of that name, the
  name \<^verbatim>\<open>__proto__\<close> is the accessor that the object inherits from
  \<^verbatim>\<open>Object.prototype\<close>: the assignment calls its setter, and no property is
  created. For any other name a new property is created, and \<^verbatim>\<open>Object.keys\<close>
  lists the array indices first, in ascending order, then the other names in the
  order of their creation.
\<close>

definition index_below :: "nat \<Rightarrow> string \<Rightarrow> bool" where
  "index_below n k = (case array_index k of None \<Rightarrow> False | Some m \<Rightarrow> m < n)"

definition set_prop :: "(string \<times> jsval) list \<Rightarrow> string \<Rightarrow> jsval \<Rightarrow> (string \<times> jsval) list" where
  "set_prop ps key v =
     (if key \<in> set (map fst ps)
      then map (\<lambda>(k, x). if k = key then (k, v) else (k, x)) ps
      else if key = ''__proto__'' then ps
      else case array_index key of
             None \<Rightarrow> ps @ [(key, v)]
           | Some n \<Rightarrow>
               takeWhile (\<lambda>(k, x). index_below n k) ps @ [(key, v)]
               @ dropWhile (\<lambda>(k, x). index_below n k) ps)"

text \<open>\<^verbatim>\<open>keys.forEach(key => { obj[key] = v[key]; })\<close>.\<close>

fun assign_keys :: "jsval \<Rightarrow> string list \<Rightarrow> (string \<times> jsval) list \<Rightarrow> error + (string \<times> jsval) list" where
  "assign_keys v [] obj = Inr obj"
| "assign_keys v (key # keys) obj =
     (case get_prop v key of
        Inl e \<Rightarrow> Inl e
      | Inr x \<Rightarrow> assign_keys v keys (set_prop obj key x))"

definition project_one :: "string list \<Rightarrow> jsval \<Rightarrow> error + jsval" where
  "project_one keys v =
     (case assign_keys v keys [] of Inl e \<Rightarrow> Inl e | Inr obj \<Rightarrow> Inr (JObj obj))"

definition projection :: "jsval list \<Rightarrow> ParamEndRule \<Rightarrow> error + jsval list" where
  "projection arr opt = mapM (project_one (Object_keys opt)) arr"

text \<open>
  \<^verbatim>\<open>endHeadless\<close>: a sub-directive applies when its key is present and its value is
  truthy, that is an object (\<open>Some\<close>); \<^verbatim>\<open>sort\<close> comes before \<^verbatim>\<open>projection\<close>.
\<close>

definition endHeadless :: "platform \<Rightarrow> jsval list \<Rightarrow> EndRule \<Rightarrow> error + jsval list" where
  "endHeadless P arr options =
     (case (case end_sort options of
              None \<Rightarrow> Inr arr
            | Some s \<Rightarrow> sort_js P arr s) of
        Inl e \<Rightarrow> Inl e
      | Inr result \<Rightarrow>
          (case end_projection options of
             None \<Rightarrow> Inr result
           | Some p \<Rightarrow> projection result p))"

section \<open>The query executor: \<^verbatim>\<open>Database.find\<close>\<close>

text \<open>
  A query is the list of its top-level properties in the order of
  \<^verbatim>\<open>Object.keys\<close>: \<^verbatim>\<open>$and\<close> and \<^verbatim>\<open>$or\<close> with an array of rule sets or
  \<^verbatim>\<open>undefined\<close>, \<^verbatim>\<open>$text\<close> with a string or \<^verbatim>\<open>undefined\<close>, and any other key, a
  field name with its rule (\<open>Q_field\<close>) or, the property being optional, with
  \<^verbatim>\<open>undefined\<close> (\<open>Q_undefined\<close>).
\<close>

datatype QueryEntry =
    Q_and "Param list option"
  | Q_or "Param list option"
  | Q_text "string option"
  | Q_field string QueryRule
  | Q_undefined string

type_synonym Query = "QueryEntry list"

text \<open>The body of \<^verbatim>\<open>Object.keys(query).forEach\<close> for one key.\<close>

fun query_step :: "platform \<Rightarrow> jsval list \<Rightarrow> QueryEntry \<Rightarrow> error + jsval list" where
  "query_step P result (Q_and opts) =
     dollar_and result (case opts of None \<Rightarrow> [] | Some os \<Rightarrow> os)"
| "query_step P result (Q_or opts) =
     dollar_or result (case opts of None \<Rightarrow> [] | Some os \<Rightarrow> os)"
| "query_step P result (Q_text text) = dollar_text P result text"
| "query_step P result (Q_field key opt) =
     filterM (\<lambda>val. ruleHeadless val key opt) result"
| "query_step P result (Q_undefined key) =
     filterM (\<lambda>val. ruleHeadless_cast val key None) result"

fun query_loop :: "platform \<Rightarrow> Query \<Rightarrow> jsval list \<Rightarrow> error + jsval list" where
  "query_loop P [] result = Inr result"
| "query_loop P (entry # rest) result =
     (case query_step P result entry of
        Inl e \<Rightarrow> Inl e
      | Inr r \<Rightarrow> query_loop P rest r)"

text \<open>
  \<^verbatim>\<open>str.split('\n')\<close>: the pieces between the newlines; a string without a
  newline is one piece, also the empty string.
\<close>

definition newline :: char where
  "newline = CHR 0x0A"

fun split :: "char \<Rightarrow> string \<Rightarrow> string list" where
  "split c [] = [[]]"
| "split c (x # xs) =
     (if x = c then [] # split c xs
      else case split c xs of
             [] \<Rightarrow> [[x]]
           | l # ls \<Rightarrow> (x # l) # ls)"

text \<open>The lines that \<^verbatim>\<open>.filter((v) => v[0] === 'E')\<close> keeps.\<close>

definition tagged :: "string \<Rightarrow> bool" where
  "tagged v = (case v of [] \<Rightarrow> False | c # _ \<Rightarrow> c = CHR ''E'')"

text \<open>\<^verbatim>\<open>JSON.parse(v.slice(1))\<close>.\<close>

definition parse_line :: "platform \<Rightarrow> string \<Rightarrow> error + jsval" where
  "parse_line P v =
     (case JSON_parse P (drop 1 v) of None \<Rightarrow> Inl JSONSyntaxError | Some r \<Rightarrow> Inr r)"

definition sqlData :: "platform \<Rightarrow> string \<Rightarrow> error + jsval list" where
  "sqlData P str = mapM (parse_line P) (filter tagged (split newline str))"

text \<open>
  The file system is a map from paths to contents; \<^verbatim>\<open>readFile\<close> rejects when the
  path cannot be read.
\<close>

type_synonym files = "string \<Rightarrow> string option"

definition readFile :: "files \<Rightarrow> string \<Rightarrow> error + string" where
  "readFile fs path = (case fs path of None \<Rightarrow> Inl ReadError | Some data \<Rightarrow> Inr data)"

record Database =
  filename :: string
  fullTextSearchFieldNames :: "string list"

definition find_js :: "platform \<Rightarrow> files \<Rightarrow> Database \<Rightarrow> Query \<Rightarrow> EndRule option \<Rightarrow> error + jsval list" where
  "find_js P fs db query options =
     (case readFile fs (filename db) of
        Inl e \<Rightarrow> Inl e
      | Inr str \<Rightarrow>
          (case sqlData P str of
             Inl e \<Rightarrow> Inl e
           | Inr records \<Rightarrow>
               (case query_loop P query records of
                  Inl e \<Rightarrow> Inl e
                | Inr result \<Rightarrow>
                    (case options of
                       None \<Rightarrow> Inr result
                     | Some opts \<Rightarrow> endHeadless P result opts))))"

text \<open>
  The order in which \<^verbatim>\<open>Object.keys\<close> lists the names of an object: no name
  twice, the array indices first and ascending, the other names after them.
\<close>

fun key_order :: "string list \<Rightarrow> bool" where
  "key_order [] = True"
| "key_order (k # ks) =
     (k \<notin> set ks \<and> key_order ks
      \<and> (case array_index k of
            None \<Rightarrow> list_all (\<lambda>j. array_index j = None) ks
          | Some n \<Rightarrow> list_all (\<lambda>j. \<not> index_below (Suc n) j) ks))"

section \<open>The store and the platform of the examples\<close>

text \<open>
  The backing store of the end-to-end scenarios: three lines tagged \<^verbatim>\<open>E\<close> and one
  line tagged \<^verbatim>\<open>X\<close>.
\<close>

definition ann :: jsval where
  "ann = JObj [(''name'', JStr ''Ann''), (''age'', JNum 30)]"

definition bo :: jsval where
  "bo = JObj [(''name'', JStr ''Bo''), (''age'', JNum 20)]"

definition cy :: jsval where
  "cy = JObj [(''name'', JStr ''Cy''), (''age'', JNum 25)]"

definition ann_line :: string where
  \<open>ann_line = ''E{"name":"Ann","age":30}''\<close>

definition bo_line :: string where
  \<open>bo_line = ''E{"name":"Bo","age":20}''\<close>

definition x_line :: string where
  \<open>x_line = ''X{"ignored":true}''\<close>

definition cy_line :: string where
  \<open>cy_line = ''E{"name":"Cy","age":25}''\<close>

text \<open>A record whose field \<^verbatim>\<open>age\<close> is an object with an own property \<^verbatim>\<open>toString\<close>.\<close>

definition odd_rec :: jsval where
  "odd_rec = JObj [(''age'', JObj [(''toString'', JNum 1)])]"

definition odd_line :: string where
  \<open>odd_line = ''E{"age":{"toString":1}}''\<close>

definition example_store :: string where
  "example_store = ann_line @ [newline] @ bo_line @ [newline] @ x_line @ [newline] @ cy_line"

text \<open>
  \<^verbatim>\<open>JSON.parse\<close> on the payloads of the examples. Any other payload is rejected
  here; the examples use \<^verbatim>\<open>{oops\<close>, which the language rejects too.
\<close>

definition example_parse :: "string \<Rightarrow> jsval option" where
  "example_parse s =
     (if s = drop 1 ann_line then Some ann
      else if s = drop 1 bo_line then Some bo
      else if s = drop 1 cy_line then Some cy
      else if s = drop 1 odd_line then Some odd_rec
      else if s = ''null'' then Some JNull
      else None)"

text \<open>
  \<^verbatim>\<open>new RegExp\<close> on the sources \<^verbatim>\<open>\bword\b\<close> whose word has word characters only:
  the pattern has no syntax of its own beyond the two boundaries, and its matcher
  is \<open>word_matcher\<close>. Any other source is rejected here; the examples use
  \<^verbatim>\<open>\b(\b\<close>, which the language rejects too (an unterminated group).
\<close>

definition example_RegExp :: "string \<Rightarrow> matcher option" where
  "example_RegExp src =
     (let word = take (length src - 4) (drop 2 src)
      in if 4 \<le> length src \<and> src = pattern_source (Some word) \<and> list_all is_word_char word
         then Some (word_matcher word) else None)"

text \<open>
  \<^verbatim>\<open>Number\<close> on the values of the examples: the string \<^verbatim>\<open>10\<close> is the number 10,
  and the other strings, which are names, are not numbers; an object with an own
  property \<^verbatim>\<open>toString\<close> that is not a function has no primitive value, so
  \<^verbatim>\<open>Number\<close> throws; the other objects are not numbers (\<^verbatim>\<open>[object Object]\<close>).
  The examples apply \<^verbatim>\<open>Number\<close> to no other value.
\<close>

definition example_Number :: "jsval \<Rightarrow> rat option option" where
  "example_Number v =
     (case v of
        JStr s \<Rightarrow> (if s = ''10'' then Some (Some 10) else Some None)
      | JObj ps \<Rightarrow>
          (case map_of ps ''toString'' of
             None \<Rightarrow> Some None
           | Some (JFunction f) \<Rightarrow> Some None
           | Some x \<Rightarrow> None)
      | _ \<Rightarrow> Some None)"

definition example_platform :: platform where
  "example_platform =
     \<lparr>JSON_parse = example_parse, new_RegExp = example_RegExp, ToNumber = example_Number\<rparr>"

definition example_db :: Database where
  "example_db = \<lparr>filename = ''db.txt'', fullTextSearchFieldNames = []\<rparr>"

definition example_files :: files where
  "example_files path = (if path = ''db.txt'' then Some example_store else None)"

text \<open>The rule \<^verbatim>\<open>{$gt: 21}\<close>.\<close>

definition gt_21 :: QueryRule where
  "gt_21 = \<lparr>rule_eq = None, rule_gt = Some (Some 21), rule_lt = None, rule_in = None\<rparr>"

text \<open>
  For the statements about \<^verbatim>\<open>sort\<close>: \<open>coerced P k r\<close> is the number that the
  comparator works with, \<^verbatim>\<open>Number(r[k])\<close>, and \<open>None\<close> when the read or the
  coercion throws or the coercion gives not-a-number. The field \<open>k\<close> of \<open>r\<close>
  coerces when there is such a number, as for a number, \<^verbatim>\<open>null\<close> (0), a boolean
  (0 or 1) and a numeric string; \<open>key_of\<close> is that number. \<open>converts\<close> only says
  that \<^verbatim>\<open>Number(r[k])\<close> does not throw.
\<close>

definition coerced :: "platform \<Rightarrow> string \<Rightarrow> jsval \<Rightarrow> rat option" where
  "coerced P k r =
     (case get_prop r k of
        Inl e \<Rightarrow> None
      | Inr v \<Rightarrow> (case Number_js P v of Inl e \<Rightarrow> None | Inr n \<Rightarrow> n))"

definition coerces :: "platform \<Rightarrow> string \<Rightarrow> jsval \<Rightarrow> bool" where
  "coerces P k r = (coerced P k r \<noteq> None)"

definition key_of :: "platform \<Rightarrow> string \<Rightarrow> jsval \<Rightarrow> rat" where
  "key_of P k r = (case coerced P k r of None \<Rightarrow> 0 | Some q \<Rightarrow> q)"

definition converts :: "platform \<Rightarrow> string \<Rightarrow> jsval \<Rightarrow> bool" where
  "converts P k r =
     (case get_prop r k of
        Inl e \<Rightarrow> False
      | Inr v \<Rightarrow> (case Number_js P v of Inl e \<Rightarrow> False | Inr n \<Rightarrow> True))"

text \<open>Two records that tie on \<^verbatim>\<open>b\<close> and differ on \<^verbatim>\<open>a\<close>.\<close>

definition a2b1 :: jsval where
  "a2b1 = JObj [(''a'', JNum 2), (''b'', JNum 1)]"

definition a1b1 :: jsval where
  "a1b1 = JObj [(''a'', JNum 1), (''b'', JNum 1)]"

text \<open>
  Two records whose fields are not numbers but coerce: \<^verbatim>\<open>true\<close> is 1, \<^verbatim>\<open>null\<close>
  is 0, and the string \<^verbatim>\<open>10\<close> is 10.
\<close>

definition a_true :: jsval where
  "a_true = JObj [(''a'', JBool True), (''b'', JStr ''10'')]"

definition a_null :: jsval where
  "a_null = JObj [(''a'', JNull), (''b'', JStr ''10'')]"

text \<open>
  For the statements about failures: \<^verbatim>\<open>null\<close> and \<^verbatim>\<open>undefined\<close> are the values
  whose properties cannot be read; a query entry compiles when it is not
  \<^verbatim>\<open>$text\<close>, or when \<^verbatim>\<open>new RegExp\<close> accepts the source built from its phrase.
\<close>

definition nullish :: "jsval \<Rightarrow> bool" where
  "nullish r = (r = JNull \<or> r = JUndefined)"












section \<open>The same program on a store\<close>

text \<open>
  Arrays and objects are shared and changed in place: \<^verbatim>\<open>arr.sort\<close> reorders the
  array it is called on and returns that array, \<^verbatim>\<open>arr.filter\<close> and \<^verbatim>\<open>arr.map\<close>
  build a new array, \<^verbatim>\<open>obj[key] = ...\<close> writes to an object. To state what is
  new and what is changed, the functions of \<^verbatim>\<open>Database.find\<close> are given a second
  time on a store. The store is a list of cells; an address is an index, and a
  new cell goes to the end. A cell is an array, the list of the addresses of its
  elements, or the value of a record (a loaded value, or an object that
  \<^verbatim>\<open>projection\<close> builds). The callbacks only read the records, so they are the
  functions of the sections above, applied to the contents of the cells.
\<close>

type_synonym addr = nat

datatype cell = Arr "addr list" | Rec jsval

type_synonym store = "cell list"























section \<open>Properties\<close>

lemma filterM_const: "filterM (\<lambda>_. Inr b) xs = Inr (if b then xs else [])"
  by (induction xs) auto

text \<open>
  C6. With an empty array of rule sets \<^verbatim>\<open>$and\<close> is the identity: every record
  passes, and the result is the input, in the same order; so it is for the query
  \<^verbatim>\<open>{$and: []}\<close>.
\<close>

theorem C6_and_empty_identity:
  "dollar_and arr [] = Inr arr \<and> query_step P arr (Q_and (Some [])) = Inr arr"
  by (simp add: dollar_and_def and_pred_def [abs_def] filterM_const)

text \<open>
  C7. With an empty array of rule sets \<^verbatim>\<open>$or\<close> returns the empty result: no
  record passes; so it is for the query \<^verbatim>\<open>{$or: []}\<close>.
\<close>

theorem C7_or_empty_none:
  "dollar_or arr [] = Inr [] \<and> query_step P arr (Q_or (Some [])) = Inr []"
  by (simp add: dollar_or_def or_pred_def [abs_def] filterM_const)

subsection \<open>Field rules on a record\<close>

lemma get_prop_obj: "\<exists>val. get_prop (JObj ps) key = Inr val"
  by simp

lemma dollar_eq_Inr:
  "get_prop data key = Inr val \<Longrightarrow>
   dollar_eq data key = (\<lambda>v. Inr ((typeof val = ''string'' \<or> typeof val = ''number'') \<and> val = v))"
  by (auto simp: dollar_eq_def fun_eq_iff)

lemma dollar_gt_Inr:
  "get_prop data key = Inr val \<Longrightarrow>
   dollar_gt data key = (\<lambda>g. Inr (typeof val = ''number'' \<and> greater_js val g))"
  by (auto simp: dollar_gt_def fun_eq_iff)

lemma dollar_lt_Inr:
  "get_prop data key = Inr val \<Longrightarrow>
   dollar_lt data key = (\<lambda>l. Inr (typeof val = ''number'' \<and> less_js val l))"
  by (auto simp: dollar_lt_def fun_eq_iff)

lemma dollar_in_Inr:
  "get_prop data key = Inr val \<Longrightarrow>
   dollar_in data key =
     (\<lambda>vs. Inr ((typeof val = ''number'' \<or> typeof val = ''string'') \<and> val \<in> set vs))"
  by (auto simp: dollar_in_def fun_eq_iff)

lemma check_Inr:
  "check (map_option (\<lambda>x. Inr (f x)) r) (Inr b) =
   Inr ((case r of None \<Rightarrow> True | Some x \<Rightarrow> f x) \<and> b)"
  by (cases r) (simp_all add: check_def)

lemma ruleHeadless_Inr:
  assumes "get_prop data key = Inr val"
  shows "ruleHeadless data key ruleOpt = Inr
     ((case rule_eq ruleOpt of None \<Rightarrow> True
       | Some v \<Rightarrow> (typeof val = ''string'' \<or> typeof val = ''number'') \<and> val = v)
    \<and> (case rule_gt ruleOpt of None \<Rightarrow> True
       | Some g \<Rightarrow> typeof val = ''number'' \<and> greater_js val g)
    \<and> (case rule_lt ruleOpt of None \<Rightarrow> True
       | Some l \<Rightarrow> typeof val = ''number'' \<and> less_js val l)
    \<and> (case rule_in ruleOpt of None \<Rightarrow> True
       | Some vs \<Rightarrow> (typeof val = ''number'' \<or> typeof val = ''string'')
            \<and> val \<in> set (case vs of None \<Rightarrow> [] | Some xs \<Rightarrow> xs)))"
  unfolding ruleHeadless_def dollar_eq_Inr [OF assms] dollar_gt_Inr [OF assms]
    dollar_lt_Inr [OF assms] dollar_in_Inr [OF assms]
  by (simp only: check_Inr simp_thms)

text \<open>
  C8. Predicate evaluation is total. A record is an object; for every record,
  field name and field rule, \<^verbatim>\<open>ruleHeadless\<close> returns a boolean and never throws.
  When the value of the field (\<^verbatim>\<open>undefined\<close> for an absent field) is not a number,
  \<^verbatim>\<open>$gt\<close> and \<^verbatim>\<open>$lt\<close> are false, and so is every rule that has one of them; when it
  is neither a number nor a string, \<^verbatim>\<open>$eq\<close> and \<^verbatim>\<open>$in\<close> are false, and so is every
  rule that has one of them.
\<close>

theorem C8_predicates_total:
  "(\<exists>b. ruleHeadless (JObj ps) key ruleOpt = Inr b)
   \<and> (\<exists>val. get_prop (JObj ps) key = Inr val
        \<and> (typeof val \<noteq> ''number'' \<longrightarrow>
              dollar_gt (JObj ps) key g = Inr False
              \<and> dollar_lt (JObj ps) key l = Inr False
              \<and> (rule_gt ruleOpt \<noteq> None \<or> rule_lt ruleOpt \<noteq> None \<longrightarrow>
                   ruleHeadless (JObj ps) key ruleOpt = Inr False))
        \<and> (typeof val \<noteq> ''number'' \<and> typeof val \<noteq> ''string'' \<longrightarrow>
              dollar_eq (JObj ps) key v = Inr False
              \<and> dollar_in (JObj ps) key vs = Inr False
              \<and> (rule_eq ruleOpt \<noteq> None \<or> rule_in ruleOpt \<noteq> None \<longrightarrow>
                   ruleHeadless (JObj ps) key ruleOpt = Inr False)))"
proof -
  obtain val where val: "get_prop (JObj ps) key = Inr val"
    using get_prop_obj by blast
  have total: "\<exists>b. ruleHeadless (JObj ps) key ruleOpt = Inr b"
    by (simp add: ruleHeadless_Inr [OF val])
  have num: "dollar_gt (JObj ps) key g = Inr False \<and> dollar_lt (JObj ps) key l = Inr False
      \<and> (rule_gt ruleOpt \<noteq> None \<or> rule_lt ruleOpt \<noteq> None \<longrightarrow>
           ruleHeadless (JObj ps) key ruleOpt = Inr False)"
    if "typeof val \<noteq> ''number''"
    using that
    by (auto simp: ruleHeadless_Inr [OF val] dollar_gt_Inr [OF val] dollar_lt_Inr [OF val])
  have scalar: "dollar_eq (JObj ps) key v = Inr False \<and> dollar_in (JObj ps) key vs = Inr False
      \<and> (rule_eq ruleOpt \<noteq> None \<or> rule_in ruleOpt \<noteq> None \<longrightarrow>
           ruleHeadless (JObj ps) key ruleOpt = Inr False)"
    if "typeof val \<noteq> ''number'' \<and> typeof val \<noteq> ''string''"
    using that
    by (auto simp: ruleHeadless_Inr [OF val] dollar_eq_Inr [OF val] dollar_in_Inr [OF val])
  show ?thesis
    using val total num scalar by blast
qed

theorem C8_predicates_total_witness:
  "get_prop (JObj [(''name'', JStr ''Ann''), (''age'', JNum 30)]) ''name'' = Inr (JStr ''Ann'')
   \<and> typeof (JStr ''Ann'') \<noteq> ''number''
   \<and> dollar_gt (JObj [(''name'', JStr ''Ann''), (''age'', JNum 30)]) ''name'' (Some 21) = Inr False
   \<and> ruleHeadless (JObj [(''name'', JStr ''Ann''), (''age'', JNum 30)]) ''name''
        \<lparr>rule_eq = None, rule_gt = Some (Some 21), rule_lt = None, rule_in = None\<rparr> = Inr False
   \<and> get_prop (JObj [(''name'', JStr ''Ann''), (''age'', JNum 30)]) ''zip'' = Inr JUndefined
   \<and> dollar_eq (JObj [(''name'', JStr ''Ann''), (''age'', JNum 30)]) ''zip'' (JStr ''x'') = Inr False
   \<and> dollar_in (JObj [(''name'', JStr ''Ann''), (''age'', JNum 30)]) ''zip'' [JStr ''x''] = Inr False"
  using C8_predicates_total [of "[(''name'', JStr ''Ann''), (''age'', JNum 30)]" "''name''"
      "\<lparr>rule_eq = None, rule_gt = Some (Some 21), rule_lt = None, rule_in = None\<rparr>"
      "Some 21" "Some 21" "JStr ''x''" "[JStr ''x'']"]
    C8_predicates_total [of "[(''name'', JStr ''Ann''), (''age'', JNum 30)]" "''zip''"
      "\<lparr>rule_eq = None, rule_gt = Some (Some 21), rule_lt = None, rule_in = None\<rparr>"
      "Some 21" "Some 21" "JStr ''x''" "[JStr ''x'']"]
  by (simp add: read_prop_def inherited_def Object_prototype_functions_def)

subsection \<open>Projection\<close>

lemma key_order_prefix: "key_order (xs @ ys) \<Longrightarrow> key_order xs"
  by (induction xs) (auto split: option.splits)

lemma key_order_remove: "key_order (xs @ k # ys) \<Longrightarrow> key_order (xs @ ys)"
  by (induction xs) (auto split: option.splits)

lemma key_order_snoc_notin: "key_order (ks @ [k]) \<Longrightarrow> k \<notin> set ks"
  by (induction ks) auto

lemma key_order_snoc_below:
  "key_order (ks @ [k]) \<Longrightarrow> array_index k = Some n \<Longrightarrow> list_all (index_below n) ks"
  by (induction ks) (auto simp: index_below_def split: option.splits)

lemma set_prop_proto: "map_of ps ''__proto__'' = None \<Longrightarrow> set_prop ps ''__proto__'' x = ps"
  by (simp add: set_prop_def map_of_eq_None_iff)

lemma set_prop_snoc:
  assumes "key_order (map fst ps @ [k])" "k \<noteq> ''__proto__''"
  shows "set_prop ps k x = ps @ [(k, x)]"
proof (cases "array_index k")
  case None
  then show ?thesis
    using key_order_snoc_notin [OF assms(1)] assms(2) by (simp add: set_prop_def)
next
  case (Some n)
  have "list_all (index_below n) (map fst ps)"
    using key_order_snoc_below [OF assms(1) Some] .
  then have all: "\<forall>p \<in> set ps. (\<lambda>(k, x). index_below n k) p"
    by (auto simp: list_all_iff)
  have "takeWhile (\<lambda>(k, x). index_below n k) ps = ps"
    using all by (simp add: takeWhile_eq_all_conv)
  moreover have "dropWhile (\<lambda>(k, x). index_below n k) ps = []"
    using all by simp
  ultimately show ?thesis
    using key_order_snoc_notin [OF assms(1)] assms(2) Some by (simp add: set_prop_def)
qed

lemma map_of_replace_gen:
  "map_of (map (\<lambda>(j, y). if j = k then (j, x) else (j, y)) ps) i =
   (if i = k \<and> k \<in> fst ` set ps then Some x else map_of ps i)"
proof (induction ps)
  case Nil
  then show ?case by simp
next
  case (Cons p ps)
  obtain j y where p: "p = (j, y)" by (cases p)
  show ?case using Cons by (cases "j = k"; cases "i = k"; simp add: p)
qed

lemma map_of_replace:
  "k \<in> set (map fst ps) \<Longrightarrow>
   map_of (map (\<lambda>(j, y). if j = k then (j, x) else (j, y)) ps) = (map_of ps)(k \<mapsto> x)"
  by (rule ext) (simp add: map_of_replace_gen)

lemma map_of_insert_new:
  "k \<notin> set (map fst (as @ bs)) \<Longrightarrow>
   map_of (as @ [(k, x)] @ bs) = (map_of (as @ bs))(k \<mapsto> x)"
  by (induction as) (auto simp: fun_eq_iff)

lemma map_of_set_prop:
  "map_of (set_prop ps k x) =
   (if k = ''__proto__'' \<and> map_of ps k = None then map_of ps else (map_of ps)(k \<mapsto> x))"
proof (cases "k \<in> set (map fst ps)")
  case True
  then have "map_of ps k \<noteq> None"
    by (simp add: map_of_eq_None_iff)
  then show ?thesis
    using True by (auto simp: set_prop_def map_of_replace simp del: set_map)
next
  case False
  then have none: "map_of ps k = None"
    by (simp add: map_of_eq_None_iff)
  show ?thesis
  proof (cases "k = ''__proto__''")
    case True
    then show ?thesis
      using none set_prop_proto [of ps x] by simp
  next
    case proto: False
    show ?thesis
    proof (cases "array_index k")
      case None
      then show ?thesis
        using False proto map_of_insert_new [of k ps "[]" x] by (simp add: set_prop_def)
    next
      case (Some n)
      have "k \<notin> set (map fst (takeWhile (\<lambda>(k, x). index_below n k) ps
                @ dropWhile (\<lambda>(k, x). index_below n k) ps))"
        using False by simp
      from map_of_insert_new [OF this, of x] show ?thesis
        using False proto Some by (simp add: set_prop_def)
    qed
  qed
qed

lemma set_prop_keeps:
  "map_of ps ''__proto__'' = None \<Longrightarrow> map_of (set_prop ps k x) ''__proto__'' = None"
  by (simp add: map_of_set_prop)

lemma get_prop_Inr_D: "get_prop v k = Inr x \<Longrightarrow> x = read_prop v k \<and> v \<noteq> JNull \<and> v \<noteq> JUndefined"
  by (cases v) auto

lemma get_prop_read: "v \<noteq> JNull \<Longrightarrow> v \<noteq> JUndefined \<Longrightarrow> get_prop v k = Inr (read_prop v k)"
  by (cases v) auto

lemma assign_keys_cong:
  assumes "\<And>k. k \<in> set keys \<Longrightarrow> k \<noteq> ''__proto__'' \<Longrightarrow> read_prop v k = read_prop w k"
    and "v \<noteq> JNull" "v \<noteq> JUndefined" "w \<noteq> JNull" "w \<noteq> JUndefined"
    and "map_of obj ''__proto__'' = None"
  shows "assign_keys v keys obj = assign_keys w keys obj"
  using assms(1,6)
proof (induction keys arbitrary: obj)
  case Nil
  then show ?case by simp
next
  case (Cons a keys)
  note reads = get_prop_read [OF assms(2,3)] get_prop_read [OF assms(4,5)]
  have same: "set_prop obj a (read_prop v a) = set_prop obj a (read_prop w a)"
  proof (cases "a = ''__proto__''")
    case True
    then show ?thesis using Cons.prems(2) by (simp add: set_prop_proto)
  next
    case False
    then show ?thesis using Cons.prems(1) [of a] by simp
  qed
  have "assign_keys v keys (set_prop obj a (read_prop v a))
      = assign_keys w keys (set_prop obj a (read_prop v a))"
    using Cons.prems by (intro Cons.IH set_prop_keeps) simp_all
  then show ?case
    by (simp add: reads same)
qed

lemma assign_keys_own:
  "assign_keys v keys obj = Inr obj' \<Longrightarrow> map_of obj ''__proto__'' = None \<Longrightarrow>
   map_of obj' k =
     (if k \<in> set keys \<and> k \<noteq> ''__proto__'' then Some (read_prop v k) else map_of obj k)"
proof (induction keys arbitrary: obj)
  case Nil
  then show ?case by simp
next
  case (Cons a keys)
  from Cons.prems(1) obtain x where x: "get_prop v a = Inr x"
    and rest: "assign_keys v keys (set_prop obj a x) = Inr obj'"
    by (auto split: sum.splits)
  have xv: "x = read_prop v a"
    using get_prop_Inr_D [OF x] by simp
  have keep: "map_of (set_prop obj a x) ''__proto__'' = None"
    using Cons.prems(2) by (rule set_prop_keeps)
  show ?case
    using Cons.IH [OF rest keep] Cons.prems(2)
    by (cases "a = ''__proto__''") (auto simp: map_of_set_prop xv)
qed

lemma project_one_again:
  assumes "project_one keys v = Inr w"
  shows "project_one keys w = Inr w"
proof (cases keys)
  case Nil
  then show ?thesis using assms by (simp add: project_one_def)
next
  case (Cons a rest)
  from assms obtain obj where obj: "assign_keys v keys [] = Inr obj" and w: "w = JObj obj"
    by (auto simp: project_one_def split: sum.splits)
  from obj Cons obtain x where "get_prop v a = Inr x"
    by (auto split: sum.splits)
  then have v: "v \<noteq> JNull" "v \<noteq> JUndefined"
    using get_prop_Inr_D by blast+
  have own: "map_of obj k = (if k \<in> set keys \<and> k \<noteq> ''__proto__'' then Some (read_prop v k) else None)"
    for k
    using assign_keys_own [OF obj, of k] by simp
  have "assign_keys w keys [] = assign_keys v keys []"
    by (rule assign_keys_cong [symmetric]) (simp_all add: v w read_prop_def own)
  then show ?thesis
    by (simp add: project_one_def obj w)
qed

lemma mapM_again:
  "(\<And>x y. f x = Inr y \<Longrightarrow> f y = Inr y) \<Longrightarrow> mapM f xs = Inr ys \<Longrightarrow> mapM f ys = Inr ys"
  by (induction xs arbitrary: ys) (auto split: sum.splits)

text \<open>
  C9. Projection is idempotent: projecting the result of a projection with the
  same field list gives that result again. When the first projection throws
  (a \<^verbatim>\<open>null\<close> in place of a record), so does the composition.
\<close>

theorem C9_projection_idempotent:
  "(case projection arr opt of Inl e \<Rightarrow> Inl e | Inr out \<Rightarrow> projection out opt)
   = projection arr opt"
  by (auto simp: projection_def split: sum.splits intro: mapM_again project_one_again)

lemma assign_keys_in_order:
  "key_order (map fst obj @ todo) \<Longrightarrow> map_of obj ''__proto__'' = None \<Longrightarrow>
   assign_keys (JObj ps) todo obj =
     Inr (obj @ map (\<lambda>k. (k, read_prop (JObj ps) k)) (filter (\<lambda>k. k \<noteq> ''__proto__'') todo))"
proof (induction todo arbitrary: obj)
  case Nil
  then show ?case by simp
next
  case (Cons k todo)
  show ?case
  proof (cases "k = ''__proto__''")
    case True
    have "key_order (map fst obj @ todo)"
      using Cons.prems(1) by (rule key_order_remove)
    from Cons.IH [OF this Cons.prems(2)] show ?thesis
      using True Cons.prems(2) by (simp add: set_prop_proto)
  next
    case False
    have "key_order ((map fst obj @ [k]) @ todo)"
      using Cons.prems(1) by simp
    then have snoc: "key_order (map fst obj @ [k])"
      by (rule key_order_prefix)
    have step: "set_prop obj k (read_prop (JObj ps) k) = obj @ [(k, read_prop (JObj ps) k)]"
      using snoc False by (rule set_prop_snoc)
    have ko: "key_order (map fst (obj @ [(k, read_prop (JObj ps) k)]) @ todo)"
      using Cons.prems(1) by simp
    have keep: "map_of (obj @ [(k, read_prop (JObj ps) k)]) ''__proto__'' = None"
      using Cons.prems(2) False by (simp add: map_add_def)
    from Cons.IH [OF ko keep] show ?thesis
      using False by (simp add: step)
  qed
qed

lemma read_prop_absent:
  "map_of ps k = None \<Longrightarrow> k \<notin> set (''__proto__'' # Object_prototype_functions) \<Longrightarrow>
   read_prop (JObj ps) k = JUndefined"
  by (simp add: read_prop_def inherited_def)

text \<open>
  C10, as amended. For every record and every projection rule (an object, so its
  names are in the order of \<^verbatim>\<open>Object.keys\<close>), the keys of the projected object
  are the listed names other than \<^verbatim>\<open>__proto__\<close>, in the listed order, each with
  the value the lookup yields: the value of the record's own field, else the
  member the record inherits under that name, else \<^verbatim>\<open>undefined\<close>. So when
  \<^verbatim>\<open>__proto__\<close> is not listed the keys are the listed names; and a listed name
  that the record does not have, and that is neither \<^verbatim>\<open>__proto__\<close> nor the name
  of a function of \<^verbatim>\<open>Object.prototype\<close>, is a property of the output whose
  value is \<^verbatim>\<open>undefined\<close>.
\<close>

theorem C10_projection_keys:
  "key_order (Object_keys opt) \<Longrightarrow>
   projection (map JObj rs) opt =
     Inr (map (\<lambda>ps. JObj (map (\<lambda>k. (k, read_prop (JObj ps) k))
                           (filter (\<lambda>k. k \<noteq> ''__proto__'') (Object_keys opt)))) rs)
   \<and> (\<forall>ps \<in> set rs.
        \<exists>obj. project_one (Object_keys opt) (JObj ps) = Inr (JObj obj)
          \<and> Object_keys obj = filter (\<lambda>k. k \<noteq> ''__proto__'') (Object_keys opt)
          \<and> (''__proto__'' \<notin> set (Object_keys opt) \<longrightarrow> Object_keys obj = Object_keys opt)
          \<and> (\<forall>k \<in> set (Object_keys opt).
               k \<noteq> ''__proto__'' \<longrightarrow> (k, read_prop (JObj ps) k) \<in> set obj)
          \<and> (\<forall>k \<in> set (Object_keys opt).
               map_of ps k = None \<and> k \<notin> set (''__proto__'' # Object_prototype_functions)
               \<longrightarrow> (k, JUndefined) \<in> set obj))"
proof -
  assume ko: "key_order (Object_keys opt)"
  define listed where "listed = filter (\<lambda>k. k \<noteq> ''__proto__'') (Object_keys opt)"
  define out where "out = (\<lambda>ps. map (\<lambda>k. (k, read_prop (JObj ps) k)) listed)"
  have one: "project_one (Object_keys opt) (JObj ps) = Inr (JObj (out ps))" for ps
    using assign_keys_in_order [of "[]" "Object_keys opt" ps] ko
    by (simp add: project_one_def out_def listed_def)
  have all: "mapM (project_one (Object_keys opt)) (map JObj rs) = Inr (map (\<lambda>ps. JObj (out ps)) rs)"
    by (induction rs) (simp_all add: one)
  have keys: "Object_keys (out ps) = listed" for ps
    by (simp add: Object_keys_def out_def comp_def)
  have same: "listed = Object_keys opt" if "''__proto__'' \<notin> set (Object_keys opt)"
    unfolding listed_def using that by (auto simp: filter_id_conv)
  have val: "(k, read_prop (JObj ps) k) \<in> set (out ps)"
    if "k \<in> set (Object_keys opt)" "k \<noteq> ''__proto__''" for k ps
    using that by (auto simp: out_def listed_def)
  have undef: "(k, JUndefined) \<in> set (out ps)"
    if "k \<in> set (Object_keys opt)" "map_of ps k = None"
      "k \<notin> set (''__proto__'' # Object_prototype_functions)" for k ps
    using val [of k ps] that read_prop_absent [OF that(2,3)] by simp
  have "\<exists>obj. project_one (Object_keys opt) (JObj ps) = Inr (JObj obj)
          \<and> Object_keys obj = listed
          \<and> (''__proto__'' \<notin> set (Object_keys opt) \<longrightarrow> Object_keys obj = Object_keys opt)
          \<and> (\<forall>k \<in> set (Object_keys opt).
               k \<noteq> ''__proto__'' \<longrightarrow> (k, read_prop (JObj ps) k) \<in> set obj)
          \<and> (\<forall>k \<in> set (Object_keys opt).
               map_of ps k = None \<and> k \<notin> set (''__proto__'' # Object_prototype_functions)
               \<longrightarrow> (k, JUndefined) \<in> set obj)" for ps
    using one [of ps] keys [of ps] same val [of _ ps] undef [of _ ps]
    by (intro exI [of _ "out ps"] conjI ballI impI) auto
  then show ?thesis
    using all unfolding projection_def out_def listed_def by simp
qed

theorem C10_projection_keys_witness:
  "key_order (Object_keys [(''name'', 1::rat), (''zip'', 1)])
   \<and> projection (map JObj [[(''name'', JStr ''Ann''), (''age'', JNum 30)]])
         [(''name'', 1), (''zip'', 1)]
       = Inr [JObj [(''name'', JStr ''Ann''), (''zip'', JUndefined)]]"
proof -
  have ko: "key_order (Object_keys [(''name'', 1::rat), (''zip'', 1)])"
    by (simp add: Object_keys_def array_index_def is_digit_def)
  show ?thesis
    using ko C10_projection_keys [OF ko, of "[[(''name'', JStr ''Ann''), (''age'', JNum 30)]]"]
    by (simp add: Object_keys_def read_prop_def inherited_def Object_prototype_functions_def)
qed

text \<open>
  C10, as stated, fails for the names that an object inherits. The rule
  \<^verbatim>\<open>{['__proto__']: 1}\<close> lists one name, and the projected object has no key:
  \<^verbatim>\<open>obj['__proto__'] = v['__proto__']\<close> calls the setter of the prototype. Under
  the rule \<^verbatim>\<open>{toString: 1}\<close> the Ann record, which has no such field, gives an
  entry whose value is the inherited function, not \<^verbatim>\<open>undefined\<close>.
\<close>

theorem C10_inherited_names_counterexample:
  "projection [ann] [(''__proto__'', 1)] = Inr [JObj []]
   \<and> Object_keys ([] :: (string \<times> jsval) list) \<noteq> Object_keys [(''__proto__'', 1::rat)]
   \<and> own_prop ann ''toString'' = None
   \<and> projection [ann] [(''toString'', 1)]
       = Inr [JObj [(''toString'', JFunction ''Object.prototype.toString'')]]
   \<and> (''toString'', JUndefined) \<notin> set [(''toString'', JFunction ''Object.prototype.toString'')]"
  by (simp add: projection_def project_one_def Object_keys_def ann_def set_prop_def
      read_prop_def inherited_def Object_prototype_functions_def redefines_def array_index_def
      is_digit_def)

subsection \<open>Loading the records\<close>

lemma split_not_Nil: "split c s \<noteq> []"
  by (induction s) (auto split: list.splits)

lemma split_join: "concat (map (\<lambda>l. l @ [c]) (split c s)) = s @ [c]"
  by (induction s) (auto split: list.splits simp: split_not_Nil)

lemma split_no_sep: "l \<in> set (split c s) \<Longrightarrow> c \<notin> set l"
  by (induction s arbitrary: l) (auto split: list.splits if_splits)

lemma mapM_Inr_D: "mapM f xs = Inr ys \<Longrightarrow> map f xs = map Inr ys"
  by (induction xs arbitrary: ys) (auto split: sum.splits)

lemma mapM_Inr_I: "map f xs = map Inr ys \<Longrightarrow> mapM f xs = Inr ys"
proof (induction xs arbitrary: ys)
  case Nil
  then show ?case by simp
next
  case (Cons x xs)
  then obtain y zs where ys: "ys = y # zs" and x: "f x = Inr y" and rest: "map f xs = map Inr zs"
    by (cases ys) auto
  show ?case using Cons.IH [OF rest] x ys by simp
qed

lemma mapM_Inr_iff: "mapM f xs = Inr ys \<longleftrightarrow> map f xs = map Inr ys"
  using mapM_Inr_D mapM_Inr_I by blast

lemma mapM_Inl_iff: "(\<exists>e. mapM f xs = Inl e) \<longleftrightarrow> (\<exists>x \<in> set xs. \<exists>e. f x = Inl e)"
  by (induction xs) (auto split: sum.splits)

lemma tagged_iff: "tagged v \<longleftrightarrow> v \<noteq> [] \<and> hd v = CHR ''E''"
  by (cases v) (simp_all add: tagged_def)

lemma parse_line_Inr: "parse_line P v = Inr r \<longleftrightarrow> JSON_parse P (drop 1 v) = Some r"
  by (simp add: parse_line_def split: option.splits)

lemma parse_line_Inl: "parse_line P v = Inl e \<longleftrightarrow> JSON_parse P (drop 1 v) = None \<and> e = JSONSyntaxError"
  by (auto simp add: parse_line_def split: option.splits)

lemma sqlData_Inr:
  "sqlData P str = Inr records \<longleftrightarrow>
   map (\<lambda>v. JSON_parse P (drop 1 v)) (filter tagged (split newline str)) = map Some records"
proof -
  have "map (parse_line P) ls = map Inr records \<longleftrightarrow>
        list_all2 (\<lambda>v r. parse_line P v = Inr r) ls records" for ls
    by (simp add: list.rel_eq [symmetric] list.rel_map del: list.rel_eq)
  moreover have "map (\<lambda>v. JSON_parse P (drop 1 v)) ls = map Some records \<longleftrightarrow>
        list_all2 (\<lambda>v r. JSON_parse P (drop 1 v) = Some r) ls records" for ls
    by (simp add: list.rel_eq [symmetric] list.rel_map del: list.rel_eq)
  ultimately show ?thesis
    by (simp add: sqlData_def mapM_Inr_iff parse_line_Inr)
qed

lemma sqlData_Inl:
  "sqlData P str = Inl e \<longleftrightarrow>
   e = JSONSyntaxError
   \<and> (\<exists>v \<in> set (filter tagged (split newline str)). JSON_parse P (drop 1 v) = None)"
proof -
  define ls where "ls = filter tagged (split newline str)"
  have only: "mapM (parse_line P) xs = Inl e' \<Longrightarrow> e' = JSONSyntaxError" for xs e'
    by (induction xs) (auto simp: parse_line_Inl split: sum.splits)
  have ex: "(\<exists>e. mapM (parse_line P) ls = Inl e) \<longleftrightarrow> (\<exists>v \<in> set ls. JSON_parse P (drop 1 v) = None)"
    by (simp add: mapM_Inl_iff parse_line_Inl)
  have "mapM (parse_line P) ls = Inl e \<longleftrightarrow>
        e = JSONSyntaxError \<and> (\<exists>v \<in> set ls. JSON_parse P (drop 1 v) = None)"
    using only [of ls] ex by blast
  then show ?thesis by (simp add: sqlData_def ls_def)
qed


lemma example_lines:
  "split newline example_store = [ann_line, bo_line, x_line, cy_line]"
  by (simp add: example_store_def ann_line_def bo_line_def x_line_def cy_line_def newline_def)

lemma example_tagged: "filter tagged [ann_line, bo_line, x_line, cy_line] = [ann_line, bo_line, cy_line]"
  by (simp add: tagged_def ann_line_def bo_line_def x_line_def cy_line_def)

lemma example_payloads:
  "map (\<lambda>v. example_parse (drop 1 v)) [ann_line, bo_line, cy_line] = map Some [ann, bo, cy]"
  by (simp add: example_parse_def) (simp add: ann_line_def bo_line_def cy_line_def)

lemma example_platform_parse: "JSON_parse example_platform = example_parse"
  by (simp add: example_platform_def)

lemma find_js_no_query:
  "find_js P fs db [] None =
   (case fs (filename db) of None \<Rightarrow> Inl ReadError | Some str \<Rightarrow> sqlData P str)"
  by (simp add: find_js_def readFile_def split: option.splits sum.splits)

lemma example_sqlData: "sqlData example_platform example_store = Inr [ann, bo, cy]"
  by (simp only: sqlData_Inr example_lines example_tagged example_payloads
      example_platform_parse)

lemma example_gt: "query_step P [ann, bo, cy] (Q_field ''age'' gt_21) = Inr [ann, cy]"
  by (simp add: ann_def bo_def cy_def gt_21_def ruleHeadless_def check_def dollar_gt_def
      read_prop_def greater_js_def)

text \<open>
  C5. For every text of the backing store: \<^verbatim>\<open>split\<close> cuts the text at the
  newlines (the pieces, each followed by a newline, give the text followed by a
  newline, and no piece holds a newline); the lines kept are exactly those whose
  first character is \<^verbatim>\<open>E\<close>; loading succeeds with \<open>records\<close> exactly when
  \<^verbatim>\<open>JSON.parse\<close> of the rest of each kept line gives these records, in the order
  of the lines, and fails exactly when a kept line does not parse; \<^verbatim>\<open>find\<close>
  with an empty query returns what was loaded. On the store of the examples the
  query \<^verbatim>\<open>{age: {$gt: 21}}\<close> returns the Ann record, then the Cy record.
\<close>

theorem C5_load_in_file_order:
  "split newline str \<noteq> []
   \<and> concat (map (\<lambda>l. l @ [newline]) (split newline str)) = str @ [newline]
   \<and> (\<forall>l \<in> set (split newline str). newline \<notin> set l)
   \<and> (tagged v \<longleftrightarrow> v \<noteq> [] \<and> hd v = CHR ''E'')
   \<and> (sqlData P str = Inr records \<longleftrightarrow>
        map (\<lambda>v. JSON_parse P (drop 1 v)) (filter tagged (split newline str)) = map Some records)
   \<and> (sqlData P str = Inl e \<longleftrightarrow>
        e = JSONSyntaxError
        \<and> (\<exists>v \<in> set (filter tagged (split newline str)). JSON_parse P (drop 1 v) = None))
   \<and> find_js P fs db [] None =
        (case fs (filename db) of None \<Rightarrow> Inl ReadError | Some str \<Rightarrow> sqlData P str)
   \<and> split newline example_store = [ann_line, bo_line, x_line, cy_line]
   \<and> find_js example_platform example_files example_db [Q_field ''age'' gt_21] None
        = Inr [ann, cy]"
proof -
  note load = example_sqlData
  have "find_js example_platform example_files example_db [Q_field ''age'' gt_21] None
      = Inr [ann, cy]"
    by (simp add: find_js_def readFile_def example_files_def example_db_def load example_gt
        del: query_step.simps)
  then show ?thesis
    by (intro conjI ballI split_not_Nil split_join split_no_sep tagged_iff sqlData_Inr
        sqlData_Inl find_js_no_query example_lines)
qed

theorem C5_load_in_file_order_witness:
  "sqlData example_platform example_store = Inr [ann, bo, cy]
   \<and> newline \<notin> set ann_line \<and> tagged ann_line \<and> \<not> tagged x_line"
proof -
  have "map (\<lambda>v. JSON_parse example_platform (drop 1 v)) (filter tagged (split newline example_store))
      = map Some [ann, bo, cy]"
    by (simp only: example_lines example_tagged example_payloads example_platform_parse)
  moreover have "ann_line \<in> set (split newline example_store)"
    by (simp add: example_lines)
  moreover have "ann_line \<noteq> [] \<and> hd ann_line = CHR ''E''"
    by (simp add: ann_line_def)
  moreover have "\<not> (x_line \<noteq> [] \<and> hd x_line = CHR ''E'')"
    by (simp add: x_line_def)
  ultimately show ?thesis
    using C5_load_in_file_order [of example_store ann_line example_platform "[ann, bo, cy]"]
      C5_load_in_file_order [of example_store x_line example_platform "[ann, bo, cy]"]
    by blast
qed

subsection \<open>Full-text search\<close>

lemma example_RegExp_ann:
  "new_RegExp example_platform (pattern_source (Some ''ann'')) = Some (word_matcher ''ann'')"
  by (simp add: example_platform_def example_RegExp_def pattern_source_def toLocaleLowerCase_def
      lower_char_def is_word_char_def)

lemma example_RegExp_an:
  "new_RegExp example_platform (pattern_source (Some ''an'')) = Some (word_matcher ''an'')"
  by (simp add: example_platform_def example_RegExp_def pattern_source_def toLocaleLowerCase_def
      lower_char_def is_word_char_def)

lemma lower_names:
  "toLocaleLowerCase ''Ann'' = ''ann''" "toLocaleLowerCase ''Bo'' = ''bo''"
  "toLocaleLowerCase ''Cy'' = ''cy''" "toLocaleLowerCase ''ann'' = ''ann''"
  by (simp_all add: toLocaleLowerCase_def lower_char_def)

lemma test_ann:
  "RegExp_test (word_matcher ''ann'') 0 ''ann'' = (True, 3)"
  "RegExp_test (word_matcher ''ann'') 3 ''ann'' = (False, 0)"
  "RegExp_test (word_matcher ''ann'') 3 ''bo'' = (False, 0)"
  "RegExp_test (word_matcher ''ann'') 0 ''cy'' = (False, 0)"
  by (simp_all add: word_matcher_def word_boundary_def is_word_char_def)

lemma test_an:
  "RegExp_test (word_matcher ''an'') 0 ''ann'' = (False, 0)"
  "RegExp_test (word_matcher ''an'') 0 ''bo'' = (False, 0)"
  "RegExp_test (word_matcher ''an'') 0 ''cy'' = (False, 0)"
  by (simp_all add: word_matcher_def word_boundary_def is_word_char_def)

lemma flags_ann_twice: "text_flags (word_matcher ''ann'') 0 [ann, ann] = Inr [True, False]"
  by (simp add: ann_def lower_names test_ann del: RegExp_test.simps)

lemma flags_ann_store: "text_flags (word_matcher ''ann'') 0 [ann, bo, cy] = Inr [True, False, False]"
  by (simp add: ann_def bo_def cy_def lower_names test_ann del: RegExp_test.simps)

lemma flags_an_store: "text_flags (word_matcher ''an'') 0 [ann, bo, cy] = Inr [False, False, False]"
  by (simp add: ann_def bo_def cy_def lower_names test_an del: RegExp_test.simps)

lemma whole_word_ann: "whole_word_in ''ann'' ''ann''"
  by (simp add: whole_word_in_def word_matcher_def word_boundary_def is_word_char_def upt_rec)

text \<open>
  C1. The claim: \<^verbatim>\<open>$text\<close> keeps exactly the records that have a string value
  with a whole-word match of the lower-cased phrase. The code tests every value
  with one pattern object that has the flag \<^verbatim>\<open>g\<close>, so a test starts where the
  match before it ended. On two records that both hold \<^verbatim>\<open>Ann\<close> the phrase
  \<^verbatim>\<open>ann\<close> matches the first (and leaves \<^verbatim>\<open>lastIndex\<close> at 3); the test of the second
  starts at index 3, fails, and the record is dropped although its name is a
  whole-word match. The two examples of the store of the scenarios come out as
  the claim says.
\<close>

theorem C1_text_drops_repeated_match:
  "whole_word_in (toLocaleLowerCase ''ann'') (toLocaleLowerCase ''Ann'')
   \<and> Object_values ann = Inr [JStr ''Ann'', JNum 30]
   \<and> query_step example_platform [ann, ann] (Q_text (Some ''ann'')) = Inr [ann]
   \<and> find_js example_platform (\<lambda>path. Some (ann_line @ [newline] @ ann_line)) example_db
        [Q_text (Some ''ann'')] None = Inr [ann]
   \<and> find_js example_platform example_files example_db [Q_text (Some ''ann'')] None = Inr [ann]
   \<and> find_js example_platform example_files example_db [Q_text (Some ''an'')] None = Inr []"
proof -
  have twice: "sqlData example_platform (ann_line @ [newline] @ ann_line) = Inr [ann, ann]"
    by (simp add: sqlData_def parse_line_def example_platform_def example_parse_def tagged_def
        ann_line_def newline_def)
  have store: "sqlData example_platform example_store = Inr [ann, bo, cy]"
    by (rule example_sqlData)
  have q1: "query_step example_platform [ann, ann] (Q_text (Some ''ann'')) = Inr [ann]"
    by (simp add: dollar_text_def example_RegExp_ann flags_ann_twice select_def del: text_flags.simps)
  have q2: "query_step example_platform [ann, bo, cy] (Q_text (Some ''ann'')) = Inr [ann]"
    by (simp add: dollar_text_def example_RegExp_ann flags_ann_store select_def del: text_flags.simps)
  have q3: "query_step example_platform [ann, bo, cy] (Q_text (Some ''an'')) = Inr []"
    by (simp add: dollar_text_def example_RegExp_an flags_an_store select_def del: text_flags.simps)
  show ?thesis
    by (simp add: find_js_def readFile_def example_files_def example_db_def twice [simplified] store q1 q2 q3
        lower_names whole_word_ann del: query_step.simps)
      (simp add: ann_def)
qed

subsection \<open>Sorting\<close>

lemma coercesD:
  "coerces P k r \<Longrightarrow> \<exists>v. get_prop r k = Inr v \<and> Number_js P v = Inr (Some (key_of P k r))"
  by (auto simp: coerces_def coerced_def key_of_def split: sum.splits)

lemma coerces_defined: "coerces P k r \<Longrightarrow> r \<noteq> JUndefined"
  by (auto simp: coerces_def coerced_def)

lemma SortCompare_numeric:
  assumes "coerces P k x" "coerces P k y" "map_of opt k = Some d"
  shows "SortCompare (comparefn P opt k) x y = Inr (d * (key_of P k x - key_of P k y))"
proof -
  obtain xv where xv: "get_prop x k = Inr xv" "Number_js P xv = Inr (Some (key_of P k x))"
    using coercesD [OF assms(1)] by blast
  obtain yv where yv: "get_prop y k = Inr yv" "Number_js P yv = Inr (Some (key_of P k y))"
    using coercesD [OF assms(2)] by blast
  show ?thesis
    using coerces_defined [OF assms(1)] coerces_defined [OF assms(2)]
    by (simp add: SortCompare_def comparefn_def xv yv assms(3) mul_js_def sub_js_def)
qed

lemma insort_js_numeric:
  assumes "coerces P k x" "\<forall>y \<in> set ys. coerces P k y" "map_of opt k = Some d"
  shows "insort_js (SortCompare (comparefn P opt k)) x ys
         = Inr (insort_key (\<lambda>r. d * key_of P k r) x ys)"
  using assms(2)
proof (induction ys)
  case Nil
  then show ?case by simp
next
  case (Cons y ys)
  have c: "SortCompare (comparefn P opt k) x y = Inr (d * (key_of P k x - key_of P k y))"
    using SortCompare_numeric [OF assms(1) _ assms(3)] Cons.prems by simp
  have le: "d * (key_of P k x - key_of P k y) \<le> 0 \<longleftrightarrow> d * key_of P k x \<le> d * key_of P k y"
    by (simp add: right_diff_distrib)
  show ?case
    using Cons by (simp add: c le)
qed

lemma Array_sort_numeric:
  assumes "\<forall>y \<in> set xs. coerces P k y" "map_of opt k = Some d"
  shows "Array_sort (SortCompare (comparefn P opt k)) xs = Inr (sort_key (\<lambda>r. d * key_of P k r) xs)"
  using assms(1)
proof (induction xs)
  case Nil
  then show ?case by simp
next
  case (Cons x xs)
  then have rest: "Array_sort (SortCompare (comparefn P opt k)) xs
      = Inr (sort_key (\<lambda>r. d * key_of P k r) xs)"
    by simp
  have "\<forall>y \<in> set (sort_key (\<lambda>r. d * key_of P k r) xs). coerces P k y"
    using Cons.prems by simp
  from insort_js_numeric [OF _ this assms(2), of x] Cons.prems show ?case
    by (simp add: rest)
qed

lemma sort_passes_snoc:
  "sort_passes P opt (ks @ [k]) arr =
   (case sort_passes P opt ks arr of
      Inl e \<Rightarrow> Inl e
    | Inr prev \<Rightarrow> Array_sort (SortCompare (comparefn P opt k)) prev)"
  by (induction ks arbitrary: arr) (auto split: sum.splits)

lemma comparefn_cong: "map_of opt v = map_of opt' v \<Longrightarrow> comparefn P opt v = comparefn P opt' v"
  by (simp add: comparefn_def fun_eq_iff split: sum.splits)

lemma sort_passes_cong:
  "(\<And>v. v \<in> set ks \<Longrightarrow> map_of opt v = map_of opt' v) \<Longrightarrow>
   sort_passes P opt ks arr = sort_passes P opt' ks arr"
proof (induction ks arbitrary: arr)
  case Nil
  then show ?case by simp
next
  case (Cons k ks)
  have "comparefn P opt k = comparefn P opt' k"
    using Cons.prems by (intro comparefn_cong) simp
  then show ?case using Cons by (simp split: sum.splits)
qed

lemma sort_passes_numeric:
  assumes "\<forall>r \<in> set arr. \<forall>j \<in> set ks. coerces P j r" "\<forall>j \<in> set ks. map_of opt j \<noteq> None"
  shows "\<exists>res. sort_passes P opt ks arr = Inr res \<and> mset res = mset arr"
  using assms
proof (induction ks arbitrary: arr)
  case Nil
  then show ?case by simp
next
  case (Cons k ks)
  from Cons.prems(2) obtain d where d: "map_of opt k = Some d" by auto
  have pass: "Array_sort (SortCompare (comparefn P opt k)) arr
      = Inr (sort_key (\<lambda>r. d * key_of P k r) arr)"
    using Cons.prems(1) by (intro Array_sort_numeric d) simp
  have "\<forall>r \<in> set (sort_key (\<lambda>r. d * key_of P k r) arr). \<forall>j \<in> set ks. coerces P j r"
    using Cons.prems(1) by simp
  from Cons.IH [OF this] Cons.prems(2) show ?case
    by (simp add: pass)
qed


lemma sort_js_single:
  assumes "\<forall>r \<in> set xs. coerces P k r"
  shows "sort_js P xs [(k, d)] = Inr (sort_key (\<lambda>r. d * key_of P k r) xs)"
  using Array_sort_numeric [OF assms, of "[(k, d)]" d]
  by (simp add: sort_js_def Object_keys_def)

text \<open>
  C3, as amended. The sort rule lists several fields (names listed once, the
  last with direction 1 or -1), and every listed field of every record coerces:
  \<^verbatim>\<open>Number\<close> of its value is a finite number, as for a number, \<^verbatim>\<open>null\<close>, a
  boolean or a numeric string, and neither throws nor gives not-a-number. Then \<^verbatim>\<open>sort\<close>
  makes one stable pass per listed field, each on the output of the pass before:
  the result of the whole rule is the result of sorting, by the last field
  alone, what the fields before it gave. It is a permutation of the input,
  ordered by the coerced value of the last field (ascending for 1, descending
  for -1), and the records that tie on the last field keep the order the earlier
  passes gave them. So the earlier fields break the ties of the last one; the
  order is not that of the last field alone.
\<close>

theorem C3_sort_pass_per_field:
  assumes "distinct (Object_keys (opt @ [(k, d)]))"
    and "d = 1 \<or> d = - 1"
    and "\<forall>r \<in> set arr. \<forall>j \<in> set (Object_keys (opt @ [(k, d)])). coerces P j r"
  shows "\<exists>prev res.
      sort_js P arr opt = Inr prev
    \<and> sort_js P arr (opt @ [(k, d)]) = Inr res
    \<and> sort_js P prev [(k, d)] = Inr res
    \<and> mset res = mset arr
    \<and> sorted (map (\<lambda>r. d * key_of P k r) res)
    \<and> (\<forall>c. filter (\<lambda>r. key_of P k r = c) res = filter (\<lambda>r. key_of P k r = c) prev)"
proof -
  let ?opt' = "opt @ [(k, d)]"
  let ?f = "\<lambda>r. d * key_of P k r"
  have k_new: "k \<notin> set (map fst opt)"
    using assms(1) by (simp add: Object_keys_def)
  have last: "map_of ?opt' k = Some d"
    using k_new by (simp add: map_of_eq_None_iff [THEN iffD2] map_add_def)
  have earlier: "map_of ?opt' v = map_of opt v" if "v \<in> set (Object_keys opt)" for v
  proof -
    from that have "map_of opt v \<noteq> None"
      by (simp add: Object_keys_def map_of_eq_None_iff)
    then obtain x where "map_of opt v = Some x"
      by auto
    then show ?thesis by (simp add: map_add_def)
  qed
  have present: "\<forall>j \<in> set (Object_keys opt). map_of opt j \<noteq> None"
    by (auto simp: Object_keys_def map_of_eq_None_iff)
  have num: "\<forall>r \<in> set arr. \<forall>j \<in> set (Object_keys opt). coerces P j r"
    using assms(3) by (simp add: Object_keys_def)
  from sort_passes_numeric [OF num present]
  obtain prev where prev: "sort_passes P opt (Object_keys opt) arr = Inr prev"
    and perm: "mset prev = mset arr"
    by blast
  have prev': "sort_passes P ?opt' (Object_keys opt) arr = Inr prev"
    using sort_passes_cong [of "Object_keys opt" ?opt' opt P arr] earlier prev by simp
  have "set prev = set arr"
    using perm by (rule mset_eq_setD)
  then have num_k: "\<forall>r \<in> set prev. coerces P k r"
    using assms(3) by (simp add: Object_keys_def)
  define res where "res = sort_key ?f prev"
  have pass: "Array_sort (SortCompare (comparefn P ?opt' k)) prev = Inr res"
    unfolding res_def using num_k last by (rule Array_sort_numeric)
  have whole: "sort_js P arr ?opt' = Inr res"
    by (simp add: sort_js_def Object_keys_def sort_passes_snoc pass
        prev' [unfolded Object_keys_def])
  have single: "sort_js P prev [(k, d)] = Inr res"
    unfolding res_def using num_k by (rule sort_js_single)
  have stable: "filter (\<lambda>r. key_of P k r = c) res = filter (\<lambda>r. key_of P k r = c) prev" for c
  proof -
    have "(\<lambda>r. key_of P k r = c) = (\<lambda>r. ?f r = d * c)"
      using assms(2) by auto
    then show ?thesis
      unfolding res_def by (simp only: sort_key_stable)
  qed
  have "mset res = mset arr"
    by (simp add: res_def perm)
  moreover have "sorted (map ?f res)"
    by (simp add: res_def)
  ultimately have "sort_js P arr opt = Inr prev
    \<and> sort_js P arr (opt @ [(k, d)]) = Inr res
    \<and> sort_js P prev [(k, d)] = Inr res
    \<and> mset res = mset arr
    \<and> sorted (map (\<lambda>r. d * key_of P k r) res)
    \<and> (\<forall>c. filter (\<lambda>r. key_of P k r = c) res = filter (\<lambda>r. key_of P k r = c) prev)"
    using prev whole single stable by (simp add: sort_js_def)
  then show ?thesis
    by (intro exI [of _ prev] exI [of _ res])
qed

lemma numeric_ab:
  "coerces P ''a'' a2b1" "coerces P ''b'' a2b1" "coerces P ''a'' a1b1" "coerces P ''b'' a1b1"
  by (simp_all add: coerces_def coerced_def a2b1_def a1b1_def read_prop_def)

lemma key_of_ab:
  "key_of P ''a'' a2b1 = 2" "key_of P ''b'' a2b1 = 1" "key_of P ''a'' a1b1 = 1" "key_of P ''b'' a1b1 = 1"
  by (simp_all add: key_of_def coerced_def a2b1_def a1b1_def read_prop_def)

lemma coerced_true_null:
  "coerced example_platform ''a'' a_true = Some 1" "coerced example_platform ''a'' a_null = Some 0"
  "coerced example_platform ''b'' a_true = Some 10" "coerced example_platform ''b'' a_null = Some 10"
  by (simp_all add: coerced_def a_true_def a_null_def read_prop_def example_platform_def
      example_Number_def)

lemma a2b1_neq: "a2b1 \<noteq> a1b1"
  by (simp add: a2b1_def a1b1_def)

lemma sort_by_b: "sort_js P [a2b1, a1b1] [(''b'', 1)] = Inr [a2b1, a1b1]"
  by (simp add: sort_js_single numeric_ab key_of_ab)

lemma sort_by_a: "sort_js P [a2b1, a1b1] [(''a'', 1)] = Inr [a1b1, a2b1]"
  by (simp add: sort_js_single numeric_ab key_of_ab)

lemma pass_a:
  "Array_sort (SortCompare (comparefn P [(''a'', 1), (''b'', 1)] ''a'')) [a2b1, a1b1]
   = Inr [a1b1, a2b1]"
proof -
  have "Array_sort (SortCompare (comparefn P [(''a'', 1), (''b'', 1)] ''a'')) [a2b1, a1b1]
      = Inr (sort_key (\<lambda>r. 1 * key_of P ''a'' r) [a2b1, a1b1])"
    by (rule Array_sort_numeric) (simp_all add: numeric_ab)
  then show ?thesis by (simp add: key_of_ab)
qed

lemma pass_b:
  "Array_sort (SortCompare (comparefn P [(''a'', 1), (''b'', 1)] ''b'')) [a1b1, a2b1]
   = Inr [a1b1, a2b1]"
proof -
  have "Array_sort (SortCompare (comparefn P [(''a'', 1), (''b'', 1)] ''b'')) [a1b1, a2b1]
      = Inr (sort_key (\<lambda>r. 1 * key_of P ''b'' r) [a1b1, a2b1])"
    by (rule Array_sort_numeric) (simp_all add: numeric_ab)
  then show ?thesis by (simp add: key_of_ab)
qed

lemma sort_by_a_then_b:
  "sort_js P [a2b1, a1b1] [(''a'', 1), (''b'', 1)] = Inr [a1b1, a2b1]"
  by (simp add: sort_js_def Object_keys_def pass_a pass_b del: Array_sort.simps)

text \<open>
  C3, as stated, fails: two records that tie on \<^verbatim>\<open>b\<close> come out in the order of
  \<^verbatim>\<open>a\<close> under the rule \<^verbatim>\<open>{a: 1, b: 1}\<close> and in their input order under the rule
  \<^verbatim>\<open>{b: 1}\<close>, so the last-listed field does not determine the order alone.
\<close>

theorem C3_last_field_alone_counterexample:
  "sort_js example_platform [a2b1, a1b1] [(''a'', 1), (''b'', 1)] = Inr [a1b1, a2b1]
   \<and> sort_js example_platform [a2b1, a1b1] [(''b'', 1)] = Inr [a2b1, a1b1]
   \<and> sort_js example_platform [a2b1, a1b1] [(''a'', 1), (''b'', 1)]
       \<noteq> sort_js example_platform [a2b1, a1b1] [(''b'', 1)]"
  by (simp add: sort_by_a_then_b sort_by_b a2b1_neq [symmetric])

theorem C3_sort_pass_per_field_witness:
  "coerced example_platform ''a'' a_true = Some 1
   \<and> coerced example_platform ''a'' a_null = Some 0
   \<and> coerced example_platform ''b'' a_true = Some 10
   \<and> coerced example_platform ''b'' a_null = Some 10
   \<and> (\<exists>prev res.
        sort_js example_platform [a_true, a_null] [(''a'', 1)] = Inr prev
      \<and> sort_js example_platform [a_true, a_null] ([(''a'', 1)] @ [(''b'', 1)]) = Inr res
      \<and> sort_js example_platform prev [(''b'', 1)] = Inr res
      \<and> mset res = mset [a_true, a_null]
      \<and> sorted (map (\<lambda>r. 1 * key_of example_platform ''b'' r) res)
      \<and> (\<forall>c. filter (\<lambda>r. key_of example_platform ''b'' r = c) res
             = filter (\<lambda>r. key_of example_platform ''b'' r = c) prev))"
proof -
  have "distinct (Object_keys ([(''a'', 1::rat)] @ [(''b'', 1)]))"
    by (simp add: Object_keys_def)
  moreover have "(1::rat) = 1 \<or> (1::rat) = - 1"
    by simp
  moreover have "\<forall>r \<in> set [a_true, a_null].
      \<forall>j \<in> set (Object_keys ([(''a'', 1::rat)] @ [(''b'', 1)])). coerces example_platform j r"
    by (simp add: Object_keys_def coerces_def coerced_true_null)
  ultimately have "\<exists>prev res.
        sort_js example_platform [a_true, a_null] [(''a'', 1)] = Inr prev
      \<and> sort_js example_platform [a_true, a_null] ([(''a'', 1)] @ [(''b'', 1)]) = Inr res
      \<and> sort_js example_platform prev [(''b'', 1)] = Inr res
      \<and> mset res = mset [a_true, a_null]
      \<and> sorted (map (\<lambda>r. 1 * key_of example_platform ''b'' r) res)
      \<and> (\<forall>c. filter (\<lambda>r. key_of example_platform ''b'' r = c) res
             = filter (\<lambda>r. key_of example_platform ''b'' r = c) prev)"
    by (rule C3_sort_pass_per_field)
  then show ?thesis
    by (simp only: coerced_true_null simp_thms)
qed

subsection \<open>Failures of \<^verbatim>\<open>find\<close>\<close>







































lemma converts_not_nullish: "converts P k r \<Longrightarrow> \<not> nullish r"
  by (auto simp: converts_def nullish_def)

lemma nullish_not_converts: "nullish r \<Longrightarrow> \<not> converts P k r"
  using converts_not_nullish by blast
































subsection \<open>What is new and what is changed in place\<close>
















subsection \<open>The store and the values agree\<close>





























subsection \<open>Sorting in place\<close>














end
